theory Spec2Isabelle
  imports Complex_Main
begin

section \<open>Strings and numbers of the Python source\<close>

text \<open>
  A Python \<open>str\<close> is a sequence of Unicode code points and \<open>len\<close> counts code
  points; the UTF-8 encoding of a code point takes one to four bytes. A Python \<open>int\<close>
  is unbounded (\<open>int\<close>); a finite Python \<open>float\<close> is read as the real number it
  denotes (a NaN fails every bound check of the models below, so it never passes
  validation in a bounded field).
\<close>

type_synonym str = "nat list"

definition ascii :: "string \<Rightarrow> str" where
  "ascii s = map of_char s"

definition utf8_len :: "nat \<Rightarrow> nat" where
  "utf8_len c = (if c < 128 then 1 else if c < 2048 then 2 else if c < 65536 then 3 else 4)"

definition utf8_bytes :: "str \<Rightarrow> nat" where
  "utf8_bytes s = sum_list (map utf8_len s)"

text \<open>
  The values that the \<open>sqlite3\<close> module can bind to a statement: an integer must fit
  in 64 bits signed (otherwise \<open>OverflowError\<close>), and a string must have a UTF-8
  encoding, which a lone surrogate code point has not (\<open>UnicodeEncodeError\<close>).
\<close>

definition sqlite_integer :: "int \<Rightarrow> bool" where
  "sqlite_integer n \<longleftrightarrow> - 9223372036854775808 \<le> n \<and> n \<le> 9223372036854775807"

definition sqlite_text :: "str \<Rightarrow> bool" where
  "sqlite_text s \<longleftrightarrow> list_all (\<lambda>c. c < 55296 \<or> 57343 < c) s"

section \<open>The clock and the date arithmetic\<close>

text \<open>
  A reading of the server clock, and every \<open>datetime\<close> of Python, is a number of
  microseconds since 0001-01-01 00:00:00; \<open>datetime.max\<close> is the last microsecond
  of the year 9999. \<open>datetime.utcnow() - timedelta(...)\<close> raises \<open>OverflowError\<close>
  (\<open>None\<close>) when the result is not a \<open>datetime\<close>; a \<open>timedelta\<close> that
  cannot itself be built (beyond 999999999 days) is always such a case.
\<close>

definition datetime_max :: int where
  "datetime_max = 315537897599999999"

definition representable :: "int \<Rightarrow> bool" where
  "representable t \<longleftrightarrow> 0 \<le> t \<and> t \<le> datetime_max"

definition minus_timedelta :: "int \<Rightarrow> int \<Rightarrow> int option" where
  "minus_timedelta now delta = (if representable (now - delta) then Some (now - delta) else None)"

text \<open>
  \<open>CURRENT_TIMESTAMP\<close> is the clock in whole seconds. \<open>datetime(?)\<close> applied to the
  ISO text of a \<open>datetime\<close> cuts it to whole seconds; in the last half millisecond
  of the year 9999 the text rounds past the last date of SQLite and the result is NULL
  (\<open>None\<close>), with which no comparison holds.
\<close>

definition current_timestamp :: "int \<Rightarrow> int" where
  "current_timestamp now = now div 1000000"

definition sqlite_datetime :: "int \<Rightarrow> int option" where
  "sqlite_datetime t = (if datetime_max < t + 500 then None else Some (t div 1000000))"

section \<open>The request models (server.py, lines 99 to 166)\<close>

record CPUMetrics =
  CPU_percent :: real
  CPU_count :: int
  CPU_count_logical :: int
  CPU_load_avg :: "real list option"

record MemoryMetrics =
  Memory_total :: int
  Memory_available :: int
  Memory_percent :: real
  Memory_used :: int
  Memory_free :: int
  Memory_buffers :: int
  Memory_cached :: int

record SwapMetrics =
  Swap_total :: int
  Swap_used :: int
  Swap_free :: int
  Swap_percent :: real

record DiskMetrics =
  Disk_device :: str
  Disk_mountpoint :: str
  Disk_fstype :: str
  Disk_total :: int
  Disk_used :: int
  Disk_free :: int
  Disk_percent :: real

record NetworkMetrics =
  Network_bytes_sent :: int
  Network_bytes_recv :: int
  Network_packets_sent :: int
  Network_packets_recv :: int
  Network_errin :: int
  Network_errout :: int
  Network_dropin :: int
  Network_dropout :: int

record ProcessMetrics =
  Process_pid :: int
  Process_name :: str
  Process_cpu_percent :: real
  Process_memory_percent :: real

record SystemMetrics =
  System_timestamp :: str
  System_hostname :: str
  System_cpu :: CPUMetrics
  System_memory :: MemoryMetrics
  System_swap :: SwapMetrics
  System_disk :: "DiskMetrics list"
  System_network :: "NetworkMetrics option"
  System_top_processes :: "ProcessMetrics list option"
  System_error :: "str option"

record MetricsPayload =
  Payload_hostname :: str
  Payload_metrics :: SystemMetrics

section \<open>The metrics table (MetricsDatabase, lines 168 to 346)\<close>

text \<open>
  One row of the table \<open>metrics\<close> created by \<open>_init_database\<close>. The three JSON text
  columns are kept as the values that \<open>json.dumps\<close> serialises. \<open>created_at\<close> is
  the column default \<open>CURRENT_TIMESTAMP\<close>, in seconds since 0001-01-01 00:00:00.
\<close>

record row =
  row_id :: int
  timestamp :: str
  hostname :: str
  cpu_percent :: real
  memory_percent :: real
  memory_total :: int
  memory_used :: int
  swap_percent :: real
  disk_data :: "DiskMetrics list"
  network_data :: "NetworkMetrics option"
  raw_data :: MetricsPayload
  created_at :: int

text \<open>
  The database file: the rows of \<open>metrics\<close> in rowid order, and the counter that
  \<open>AUTOINCREMENT\<close> keeps in \<open>sqlite_sequence\<close> (the largest rowid ever used).
\<close>

record database =
  metrics_table :: "row list"
  metrics_seq :: int

definition empty_database :: database where
  "empty_database = \<lparr>metrics_table = [], metrics_seq = 0\<rparr>"

text \<open>
  A connection sees the committed file and the changes of its open transaction.
  Closing a connection without a commit drops the pending changes.
\<close>

record connection =
  committed :: database
  pending :: database

definition connect :: "database \<Rightarrow> connection" where
  "connect db = \<lparr>committed = db, pending = db\<rparr>"

definition commit :: "connection \<Rightarrow> connection" where
  "commit conn = conn\<lparr>committed := pending conn\<rparr>"

definition rollback :: "connection \<Rightarrow> connection" where
  "rollback conn = conn\<lparr>pending := committed conn\<rparr>"

definition close :: "connection \<Rightarrow> database" where
  "close conn = committed conn"

text \<open>
  Every method of MetricsDatabase wraps its whole body in \<open>try ... except Exception\<close>.
  A failure of the storage itself (the file cannot be opened, the disk fails, the file is
  locked or corrupt) is an input of the model, with the place where SQLite raises it: in
  \<open>sqlite3.connect\<close>, in the statement inside the \<open>with\<close> block, or in
  \<open>conn.commit()\<close>. \<open>None\<close> is a call that meets no such failure. The exceptions
  that the arguments of a call cause (date arithmetic out of range, a value that cannot
  be bound, no rowid left) are computed from the arguments.
\<close>

datatype failure = OnConnect | InBody | OnCommit

text \<open>
  The rowid that \<open>INTEGER PRIMARY KEY AUTOINCREMENT\<close> gives the next row: one more
  than the largest rowid ever used. When that is not a 64-bit integer the insert fails
  (\<open>database or disk is full\<close>).
\<close>

definition next_rowid :: "database \<Rightarrow> int" where
  "next_rowid db = fold max (map row_id (metrics_table db)) (metrics_seq db) + 1"

definition insert_metrics :: "int \<Rightarrow> MetricsPayload \<Rightarrow> database \<Rightarrow> database" where
  "insert_metrics now payload db =
     (let metrics = Payload_metrics payload;
          r = \<lparr>row_id = next_rowid db,
               timestamp = System_timestamp metrics,
               hostname = Payload_hostname payload,
               cpu_percent = CPU_percent (System_cpu metrics),
               memory_percent = Memory_percent (System_memory metrics),
               memory_total = Memory_total (System_memory metrics),
               memory_used = Memory_used (System_memory metrics),
               swap_percent = Swap_percent (System_swap metrics),
               disk_data = System_disk metrics,
               network_data = System_network metrics,
               raw_data = payload,
               created_at = current_timestamp now\<rparr>
      in \<lparr>metrics_table = metrics_table db @ [r], metrics_seq = next_rowid db\<rparr>)"

text \<open>The parameters of the \<open>INSERT\<close> that the module may refuse to bind.\<close>

definition bindable :: "MetricsPayload \<Rightarrow> bool" where
  "bindable payload \<longleftrightarrow>
     sqlite_text (System_timestamp (Payload_metrics payload))
     \<and> sqlite_text (Payload_hostname payload)
     \<and> sqlite_integer (Memory_total (System_memory (Payload_metrics payload)))
     \<and> sqlite_integer (Memory_used (System_memory (Payload_metrics payload)))"

definition store_metrics ::
  "int \<Rightarrow> failure option \<Rightarrow> database \<Rightarrow> MetricsPayload \<Rightarrow> bool \<times> database" where
  "store_metrics now fault db payload =
     (if fault = Some OnConnect then (False, db)
      else
        let conn = connect db in
        if fault = Some InBody \<or> \<not> bindable payload \<or> \<not> sqlite_integer (next_rowid (pending conn))
        then (False, close (rollback conn))
        else
          let conn = conn\<lparr>pending := insert_metrics now payload (pending conn)\<rparr> in
          if fault = Some OnCommit then (False, close (rollback conn))
          else (True, close (commit conn)))"

text \<open>
  The comparisons \<open>datetime(created_at) > datetime(?)\<close> and
  \<open>datetime(created_at) < datetime(?)\<close>, false when the parameter is NULL.
\<close>

definition later_than :: "int option \<Rightarrow> row \<Rightarrow> bool" where
  "later_than cutoff r = (case cutoff of None \<Rightarrow> False | Some s \<Rightarrow> s < created_at r)"

definition earlier_than :: "int option \<Rightarrow> row \<Rightarrow> bool" where
  "earlier_than cutoff r = (case cutoff of None \<Rightarrow> False | Some s \<Rightarrow> created_at r < s)"

text \<open>
  The two queries of \<open>get_recent_metrics\<close>. SQL leaves the order of rows with equal
  \<open>created_at\<close> open. SQLite answers the query with a hostname by a search in
  \<open>idx_hostname\<close> and a sort, which keeps equal rows in rowid order, and the query
  without one by a scan of \<open>idx_created_at\<close> backwards, which gives equal rows in
  descending rowid order.
\<close>

definition recent_of_host :: "str \<Rightarrow> int option \<Rightarrow> row list \<Rightarrow> row list" where
  "recent_of_host h cutoff rs =
     take 1000 (sort_key (\<lambda>r. - created_at r)
       (filter (\<lambda>r. hostname r = h \<and> later_than cutoff r) rs))"

definition recent_of_all :: "int option \<Rightarrow> row list \<Rightarrow> row list" where
  "recent_of_all cutoff rs =
     take 1000 (rev (sort_key created_at (filter (later_than cutoff) rs)))"

text \<open>\<open>if hostname:\<close> is false for \<open>None\<close> and for the empty string.\<close>

definition truthy :: "str option \<Rightarrow> bool" where
  "truthy host = (case host of None \<Rightarrow> False | Some h \<Rightarrow> h \<noteq> [])"

definition get_recent_metrics ::
  "int \<Rightarrow> failure option \<Rightarrow> database \<Rightarrow> str option \<Rightarrow> int \<Rightarrow> row list" where
  "get_recent_metrics now fault db host hours =
     (if fault = Some OnConnect \<or> fault = Some InBody then []
      else
        let conn = connect db in
        case minus_timedelta now (3600000000 * hours) of
          None \<Rightarrow> []
        | Some since_time \<Rightarrow>
            if truthy host then
              if sqlite_text (the host)
              then recent_of_host (the host) (sqlite_datetime since_time)
                     (metrics_table (pending conn))
              else []
            else recent_of_all (sqlite_datetime since_time) (metrics_table (pending conn)))"

text \<open>
  The aggregate query of \<open>get_summary_stats\<close>. \<open>AVG\<close> and \<open>MAX\<close> over no rows
  are NULL (\<open>None\<close>); the floating-point sum of \<open>AVG\<close> is read as the exact one.
\<close>

record summary =
  total_records :: nat
  avg_cpu :: "real option"
  max_cpu :: "real option"
  avg_memory :: "real option"
  max_memory :: "real option"
  avg_swap :: "real option"
  max_swap :: "real option"

fun sql_avg :: "real list \<Rightarrow> real option" where
  "sql_avg [] = None"
| "sql_avg (x # xs) = Some (sum_list (x # xs) / real (length (x # xs)))"

fun sql_max :: "real list \<Rightarrow> real option" where
  "sql_max [] = None"
| "sql_max (x # xs) = Some (fold max xs x)"

definition aggregate :: "row list \<Rightarrow> summary" where
  "aggregate rs =
     \<lparr>total_records = length rs,
      avg_cpu = sql_avg (map cpu_percent rs),
      max_cpu = sql_max (map cpu_percent rs),
      avg_memory = sql_avg (map memory_percent rs),
      max_memory = sql_max (map memory_percent rs),
      avg_swap = sql_avg (map swap_percent rs),
      max_swap = sql_max (map swap_percent rs)\<rparr>"

text \<open>The result is a dict; \<open>None\<close> is the empty dict \<open>{}\<close> of the \<open>except\<close> branch.\<close>

definition get_summary_stats ::
  "int \<Rightarrow> failure option \<Rightarrow> database \<Rightarrow> str option \<Rightarrow> int \<Rightarrow> summary option" where
  "get_summary_stats now fault db host hours =
     (if fault = Some OnConnect \<or> fault = Some InBody then None
      else
        let conn = connect db in
        case minus_timedelta now (3600000000 * hours) of
          None \<Rightarrow> None
        | Some since_time \<Rightarrow>
            if truthy host then
              if sqlite_text (the host)
              then Some (aggregate (filter
                     (\<lambda>r. later_than (sqlite_datetime since_time) r \<and> hostname r = the host)
                     (metrics_table (pending conn))))
              else None
            else Some (aggregate (filter (later_than (sqlite_datetime since_time))
                   (metrics_table (pending conn)))))"

definition delete_old :: "int option \<Rightarrow> database \<Rightarrow> database" where
  "delete_old cutoff db =
     db\<lparr>metrics_table := filter (\<lambda>r. \<not> earlier_than cutoff r) (metrics_table db)\<rparr>"

definition cleanup_old_data ::
  "int \<Rightarrow> failure option \<Rightarrow> database \<Rightarrow> int \<Rightarrow> int \<times> database" where
  "cleanup_old_data now fault db days_to_keep =
     (if fault = Some OnConnect then (0, db)
      else
        let conn = connect db in
        if fault = Some InBody then (0, close (rollback conn))
        else
          case minus_timedelta now (86400000000 * days_to_keep) of
            None \<Rightarrow> (0, close (rollback conn))
          | Some cutoff_date \<Rightarrow>
              let deleted_count =
                    int (length (filter (earlier_than (sqlite_datetime cutoff_date))
                           (metrics_table (pending conn))));
                  conn = conn\<lparr>pending := delete_old (sqlite_datetime cutoff_date) (pending conn)\<rparr>
              in if fault = Some OnCommit then (0, close (rollback conn))
                 else (deleted_count, close (commit conn)))"

section \<open>Invariant and reachable states\<close>

text \<open>
  The invariant of the rowids: they strictly increase along the table and none exceeds
  the \<open>AUTOINCREMENT\<close> counter.
\<close>

definition ids_inv :: "database \<Rightarrow> bool" where
  "ids_inv db \<longleftrightarrow>
     sorted_wrt (<) (map row_id (metrics_table db))
     \<and> list_all (\<lambda>r. row_id r \<le> metrics_seq db) (metrics_table db)"

text \<open>
  The states the service reaches from the empty table. Writers hold \<open>self.lock\<close>, so
  the writes are steps taken one at a time, each with its own reading of the clock and
  its own outcome; \<open>reachable ts db\<close> also records the clock readings \<open>ts\<close> of the
  calls of \<open>store_metrics\<close> so far, in their order. The two read methods do not
  change the database.
\<close>

inductive reachable :: "int list \<Rightarrow> database \<Rightarrow> bool" where
  init: "reachable [] empty_database"
| store: "reachable ts db \<Longrightarrow>
    reachable (ts @ [now]) (snd (store_metrics now fault db payload))"
| cleanup: "reachable ts db \<Longrightarrow>
    reachable ts (snd (cleanup_old_data now fault db days))"

text \<open>The row that \<open>store_metrics\<close> appends.\<close>

definition new_row :: "int \<Rightarrow> MetricsPayload \<Rightarrow> database \<Rightarrow> row" where
  "new_row now p db = last (metrics_table (insert_metrics now p db))"

section \<open>Concrete payloads and clock readings\<close>

text \<open>The clock at 2024-01-01 00:00:00, and one second.\<close>

definition new_year_2024 :: int where
  "new_year_2024 = 63839664000000000"

definition one_second :: int where
  "one_second = 1000000"

definition example_payload :: MetricsPayload where
  "example_payload =
     \<lparr>Payload_hostname = ascii ''host-a'',
      Payload_metrics =
        \<lparr>System_timestamp = ascii ''2024-01-01T12:00:00+00:00'',
         System_hostname = ascii ''host-a'',
         System_cpu = \<lparr>CPU_percent = 55.2, CPU_count = 4, CPU_count_logical = 8,
                       CPU_load_avg = None\<rparr>,
         System_memory = \<lparr>Memory_total = 1000, Memory_available = 300, Memory_percent = 70,
                          Memory_used = 700, Memory_free = 300, Memory_buffers = 0,
                          Memory_cached = 0\<rparr>,
         System_swap = \<lparr>Swap_total = 0, Swap_used = 0, Swap_free = 0, Swap_percent = 0\<rparr>,
         System_disk = [],
         System_network = None,
         System_top_processes = None,
         System_error = None\<rparr>\<rparr>"

text \<open>
  Storing \<open>example_payload\<close> with no failure of the storage, and the row this
  stores with a given rowid at a given second.
\<close>

definition store_example :: "int \<Rightarrow> database \<Rightarrow> database" where
  "store_example now db = snd (store_metrics now None db example_payload)"

definition example_row :: "int \<Rightarrow> int \<Rightarrow> row" where
  "example_row i s =
     \<lparr>row_id = i,
      timestamp = ascii ''2024-01-01T12:00:00+00:00'',
      hostname = ascii ''host-a'',
      cpu_percent = 55.2,
      memory_percent = 70,
      memory_total = 1000,
      memory_used = 700,
      swap_percent = 0,
      disk_data = [],
      network_data = None,
      raw_data = example_payload,
      created_at = s\<rparr>"


text \<open>A day and an hour in microseconds.\<close>

definition one_day :: int where
  "one_day = 86400000000"

definition one_hour :: int where
  "one_hour = 3600000000"

section \<open>The timestamp validator (SystemMetrics.validate_timestamp, lines 156 to 162)\<close>

text \<open>
  The validator calls \<open>datetime.fromisoformat\<close> of the Python standard library, whose
  grammar depends on the version of Python (3.11 parses most of ISO 8601, the versions
  before it only what \<open>isoformat()\<close> writes). The parser is therefore a parameter
  \<open>fromisoformat\<close> of the validator and of all that calls it: it returns the
  \<open>datetime\<close>, or \<open>None\<close> for \<open>ValueError\<close>.
\<close>

record py_datetime =
  year :: nat
  month :: nat
  day :: nat
  hour :: nat
  minute :: nat
  second :: nat
  microsecond :: nat
  tzinfo :: "int option"

type_synonym parser = "str \<Rightarrow> py_datetime option"

definition ch :: "char \<Rightarrow> nat" where
  "ch c = of_char c"

text \<open>\<open>v.replace('Z', '+00:00')\<close> replaces every \<open>Z\<close> of the string.\<close>

definition replace_Z :: "str \<Rightarrow> str" where
  "replace_Z v = concat (map (\<lambda>c. if c = ch CHR ''Z'' then ascii ''+00:00'' else [c]) v)"

text \<open>The validator returns the string as given, or raises \<open>ValueError\<close> (\<open>None\<close>).\<close>

definition validate_timestamp :: "parser \<Rightarrow> str \<Rightarrow> str option" where
  "validate_timestamp fromisoformat v =
     (case fromisoformat (replace_Z v) of Some _ \<Rightarrow> Some v | None \<Rightarrow> None)"

text \<open>
  For the concrete examples, a parser of the strings that every version of
  \<open>datetime.fromisoformat\<close> since Python 3.7 parses: the output of \<open>isoformat()\<close>,
  \<open>YYYY-MM-DD[*HH:MM:SS[.ffffff][+HH:MM]]\<close>, where \<open>*\<close> is any one character,
  the fields form a date and a time of day, and the offset is below 24 hours. The
  offset \<open>tzinfo\<close> is in microseconds, \<open>None\<close> for a string with no offset (a naive
  \<open>datetime\<close>). The versions of Python differ only on strings outside this grammar.
\<close>

definition is_digit :: "nat \<Rightarrow> bool" where
  "is_digit c \<longleftrightarrow> 48 \<le> c \<and> c \<le> 57"

definition digits :: "str \<Rightarrow> nat option" where
  "digits s =
     (if s \<noteq> [] \<and> list_all is_digit s then Some (foldl (\<lambda>n c. 10 * n + (c - 48)) 0 s)
      else None)"

definition is_leap :: "nat \<Rightarrow> bool" where
  "is_leap y \<longleftrightarrow> y mod 4 = 0 \<and> (y mod 100 \<noteq> 0 \<or> y mod 400 = 0)"

definition days_in_month :: "nat \<Rightarrow> nat \<Rightarrow> nat" where
  "days_in_month y m =
     (if m = 2 then (if is_leap y then 29 else 28)
      else if m = 4 \<or> m = 6 \<or> m = 9 \<or> m = 11 then 30 else 31)"

definition parse_date :: "str \<Rightarrow> (nat \<times> nat \<times> nat) option" where
  "parse_date s =
     (if length s = 10 \<and> s ! 4 = ch CHR ''-'' \<and> s ! 7 = ch CHR ''-'' then
        (case (digits (take 4 s), digits (take 2 (drop 5 s)), digits (drop 8 s)) of
           (Some y, Some m, Some d) \<Rightarrow>
             if 1 \<le> y \<and> 1 \<le> m \<and> m \<le> 12 \<and> 1 \<le> d \<and> d \<le> days_in_month y m
             then Some (y, m, d) else None
         | _ \<Rightarrow> None)
      else None)"

definition parse_time :: "str \<Rightarrow> (nat \<times> nat \<times> nat) option" where
  "parse_time s =
     (if length s = 8 \<and> s ! 2 = ch CHR '':'' \<and> s ! 5 = ch CHR '':'' then
        (case (digits (take 2 s), digits (take 2 (drop 3 s)), digits (drop 6 s)) of
           (Some h, Some m, Some sec) \<Rightarrow>
             if h \<le> 23 \<and> m \<le> 59 \<and> sec \<le> 59 then Some (h, m, sec) else None
         | _ \<Rightarrow> None)
      else None)"

text \<open>An optional fraction \<open>.ffffff\<close>, with the rest of the string.\<close>

definition parse_fraction :: "str \<Rightarrow> (nat \<times> str) option" where
  "parse_fraction s =
     (case s of
        [] \<Rightarrow> Some (0, [])
      | c # t \<Rightarrow>
          if c \<noteq> ch CHR ''.'' then Some (0, s)
          else if length t < 6 then None
          else map_option (\<lambda>f. (f, drop 6 t)) (digits (take 6 t)))"

text \<open>An optional offset \<open>+HH:MM\<close> or \<open>-HH:MM\<close> that ends the string.\<close>

definition parse_offset :: "str \<Rightarrow> int option option" where
  "parse_offset s =
     (if s = [] then Some None
      else if length s = 6 \<and> (s ! 0 = ch CHR ''+'' \<or> s ! 0 = ch CHR ''-'') \<and> s ! 3 = ch CHR '':''
      then
        (case (digits (take 2 (drop 1 s)), digits (drop 4 s)) of
           (Some h, Some m) \<Rightarrow>
             if h \<le> 23 \<and> m \<le> 59
             then Some (Some ((if s ! 0 = ch CHR ''-'' then - 1 else 1)
                               * (int h * 3600 + int m * 60) * 1000000))
             else None
         | _ \<Rightarrow> None)
      else None)"

definition isoformat_parser :: parser where
  "isoformat_parser s =
     (case parse_date (take 10 s) of
        None \<Rightarrow> None
      | Some (y, m, d) \<Rightarrow>
          if length s = 10
          then Some \<lparr>year = y, month = m, day = d, hour = 0, minute = 0, second = 0,
                     microsecond = 0, tzinfo = None\<rparr>
          else
            (case parse_time (take 8 (drop 11 s)) of
               None \<Rightarrow> None
             | Some (hh, mm, ss) \<Rightarrow>
                 (case parse_fraction (drop 19 s) of
                    None \<Rightarrow> None
                  | Some (ff, rest) \<Rightarrow>
                      (case parse_offset rest of
                         None \<Rightarrow> None
                       | Some tz \<Rightarrow>
                           Some \<lparr>year = y, month = m, day = d, hour = hh, minute = mm,
                                 second = ss, microsecond = ff, tzinfo = tz\<rparr>))))"

section \<open>Validation of a request body (pydantic models, lines 99 to 166)\<close>

text \<open>
  A candidate is a request body already parsed: each field is absent (\<open>None\<close>) or holds a
  value of the field's type. Validation of a model goes through its fields in the
  order of their declaration and collects the location of every field that fails, so
  the result is either the list of all failing locations or the typed model.
\<close>

datatype loc_item = Key string | Index nat

type_synonym loc = "loc_item list"

definition ap :: "loc list + ('a \<Rightarrow> 'b) \<Rightarrow> loc list + 'a \<Rightarrow> loc list + 'b" where
  "ap f x =
     (case f of
        Inl e1 \<Rightarrow> (case x of Inl e2 \<Rightarrow> Inl (e1 @ e2) | Inr _ \<Rightarrow> Inl e1)
      | Inr g \<Rightarrow> (case x of Inl e2 \<Rightarrow> Inl e2 | Inr v \<Rightarrow> Inr (g v)))"

fun errors_of :: "loc list + 'a \<Rightarrow> loc list" where
  "errors_of (Inl e) = e"
| "errors_of (Inr _) = []"

text \<open>\<open>Field(..., bounds)\<close>: the field is required and its value must be within the bounds.\<close>

definition required :: "loc \<Rightarrow> 'a option \<Rightarrow> ('a \<Rightarrow> bool) \<Rightarrow> loc list + 'a" where
  "required l v ok =
     (case v of None \<Rightarrow> Inl [l] | Some x \<Rightarrow> if ok x then Inr x else Inl [l])"

text \<open>\<open>Field(default=d, bounds)\<close>: an absent field takes the default, unchecked.\<close>

definition with_default :: "loc \<Rightarrow> 'a option \<Rightarrow> 'a \<Rightarrow> ('a \<Rightarrow> bool) \<Rightarrow> loc list + 'a" where
  "with_default l v d ok =
     (case v of None \<Rightarrow> Inr d | Some x \<Rightarrow> if ok x then Inr x else Inl [l])"

text \<open>A required field with a \<open>@validator\<close>, which returns the value or raises.\<close>

definition required_with :: "loc \<Rightarrow> 'a option \<Rightarrow> ('a \<Rightarrow> 'b option) \<Rightarrow> loc list + 'b" where
  "required_with l v f =
     (case v of
        None \<Rightarrow> Inl [l]
      | Some x \<Rightarrow> (case f x of Some y \<Rightarrow> Inr y | None \<Rightarrow> Inl [l]))"

text \<open>Fields whose type is another model, required or \<open>Optional\<close>, and lists of models.\<close>

definition required_model ::
  "loc \<Rightarrow> 'c option \<Rightarrow> (loc \<Rightarrow> 'c \<Rightarrow> loc list + 'a) \<Rightarrow> loc list + 'a" where
  "required_model l v f = (case v of None \<Rightarrow> Inl [l] | Some c \<Rightarrow> f l c)"

definition optional_model ::
  "loc \<Rightarrow> 'c option \<Rightarrow> (loc \<Rightarrow> 'c \<Rightarrow> loc list + 'a) \<Rightarrow> loc list + 'a option" where
  "optional_model l v f = (case v of None \<Rightarrow> Inr None | Some c \<Rightarrow> ap (Inr Some) (f l c))"

fun validate_items ::
  "(loc \<Rightarrow> 'c \<Rightarrow> loc list + 'a) \<Rightarrow> nat \<Rightarrow> loc \<Rightarrow> 'c list \<Rightarrow> loc list + 'a list" where
  "validate_items f i l [] = Inr []"
| "validate_items f i l (c # cs) =
     ap (ap (Inr (#)) (f (l @ [Index i]) c)) (validate_items f (Suc i) l cs)"

record CPUMetrics_in =
  in_CPU_percent :: "real option"
  in_CPU_count :: "int option"
  in_CPU_count_logical :: "int option"
  in_CPU_load_avg :: "real list option"

record MemoryMetrics_in =
  in_Memory_total :: "int option"
  in_Memory_available :: "int option"
  in_Memory_percent :: "real option"
  in_Memory_used :: "int option"
  in_Memory_free :: "int option"
  in_Memory_buffers :: "int option"
  in_Memory_cached :: "int option"

record SwapMetrics_in =
  in_Swap_total :: "int option"
  in_Swap_used :: "int option"
  in_Swap_free :: "int option"
  in_Swap_percent :: "real option"

record DiskMetrics_in =
  in_Disk_device :: "str option"
  in_Disk_mountpoint :: "str option"
  in_Disk_fstype :: "str option"
  in_Disk_total :: "int option"
  in_Disk_used :: "int option"
  in_Disk_free :: "int option"
  in_Disk_percent :: "real option"

record NetworkMetrics_in =
  in_Network_bytes_sent :: "int option"
  in_Network_bytes_recv :: "int option"
  in_Network_packets_sent :: "int option"
  in_Network_packets_recv :: "int option"
  in_Network_errin :: "int option"
  in_Network_errout :: "int option"
  in_Network_dropin :: "int option"
  in_Network_dropout :: "int option"

record ProcessMetrics_in =
  in_Process_pid :: "int option"
  in_Process_name :: "str option"
  in_Process_cpu_percent :: "real option"
  in_Process_memory_percent :: "real option"

record SystemMetrics_in =
  in_System_timestamp :: "str option"
  in_System_hostname :: "str option"
  in_System_cpu :: "CPUMetrics_in option"
  in_System_memory :: "MemoryMetrics_in option"
  in_System_swap :: "SwapMetrics_in option"
  in_System_disk :: "DiskMetrics_in list option"
  in_System_network :: "NetworkMetrics_in option"
  in_System_top_processes :: "ProcessMetrics_in list option"
  in_System_error :: "str option"

record MetricsPayload_in =
  in_Payload_hostname :: "str option"
  in_Payload_metrics :: "SystemMetrics_in option"

definition validate_CPUMetrics :: "loc \<Rightarrow> CPUMetrics_in \<Rightarrow> loc list + CPUMetrics" where
  "validate_CPUMetrics l c =
     ap (ap (ap (ap (Inr (\<lambda>a b c d. \<lparr>CPU_percent = a, CPU_count = b, CPU_count_logical = c,
                                     CPU_load_avg = d\<rparr>))
       (required (l @ [Key ''percent'']) (in_CPU_percent c) (\<lambda>v. 0 \<le> v \<and> v \<le> 100)))
       (required (l @ [Key ''count'']) (in_CPU_count c) (\<lambda>v. 0 < v)))
       (required (l @ [Key ''count_logical'']) (in_CPU_count_logical c) (\<lambda>v. 0 < v)))
       (Inr (in_CPU_load_avg c))"

definition validate_MemoryMetrics :: "loc \<Rightarrow> MemoryMetrics_in \<Rightarrow> loc list + MemoryMetrics" where
  "validate_MemoryMetrics l c =
     ap (ap (ap (ap (ap (ap (ap (Inr (\<lambda>a b c d e f g.
          \<lparr>Memory_total = a, Memory_available = b, Memory_percent = c, Memory_used = d,
           Memory_free = e, Memory_buffers = f, Memory_cached = g\<rparr>))
       (required (l @ [Key ''total'']) (in_Memory_total c) (\<lambda>v. 0 < v)))
       (required (l @ [Key ''available'']) (in_Memory_available c) (\<lambda>v. 0 \<le> v)))
       (required (l @ [Key ''percent'']) (in_Memory_percent c) (\<lambda>v. 0 \<le> v \<and> v \<le> 100)))
       (required (l @ [Key ''used'']) (in_Memory_used c) (\<lambda>v. 0 \<le> v)))
       (required (l @ [Key ''free'']) (in_Memory_free c) (\<lambda>v. 0 \<le> v)))
       (with_default (l @ [Key ''buffers'']) (in_Memory_buffers c) 0 (\<lambda>v. 0 \<le> v)))
       (with_default (l @ [Key ''cached'']) (in_Memory_cached c) 0 (\<lambda>v. 0 \<le> v))"

definition validate_SwapMetrics :: "loc \<Rightarrow> SwapMetrics_in \<Rightarrow> loc list + SwapMetrics" where
  "validate_SwapMetrics l c =
     ap (ap (ap (ap (Inr (\<lambda>a b c d. \<lparr>Swap_total = a, Swap_used = b, Swap_free = c,
                                     Swap_percent = d\<rparr>))
       (required (l @ [Key ''total'']) (in_Swap_total c) (\<lambda>v. 0 \<le> v)))
       (required (l @ [Key ''used'']) (in_Swap_used c) (\<lambda>v. 0 \<le> v)))
       (required (l @ [Key ''free'']) (in_Swap_free c) (\<lambda>v. 0 \<le> v)))
       (required (l @ [Key ''percent'']) (in_Swap_percent c) (\<lambda>v. 0 \<le> v \<and> v \<le> 100))"

definition validate_DiskMetrics :: "loc \<Rightarrow> DiskMetrics_in \<Rightarrow> loc list + DiskMetrics" where
  "validate_DiskMetrics l c =
     ap (ap (ap (ap (ap (ap (ap (Inr (\<lambda>a b c d e f g.
          \<lparr>Disk_device = a, Disk_mountpoint = b, Disk_fstype = c, Disk_total = d,
           Disk_used = e, Disk_free = f, Disk_percent = g\<rparr>))
       (required (l @ [Key ''device'']) (in_Disk_device c) (\<lambda>v. True)))
       (required (l @ [Key ''mountpoint'']) (in_Disk_mountpoint c) (\<lambda>v. True)))
       (required (l @ [Key ''fstype'']) (in_Disk_fstype c) (\<lambda>v. True)))
       (required (l @ [Key ''total'']) (in_Disk_total c) (\<lambda>v. 0 < v)))
       (required (l @ [Key ''used'']) (in_Disk_used c) (\<lambda>v. 0 \<le> v)))
       (required (l @ [Key ''free'']) (in_Disk_free c) (\<lambda>v. 0 \<le> v)))
       (required (l @ [Key ''percent'']) (in_Disk_percent c) (\<lambda>v. 0 \<le> v \<and> v \<le> 100))"

definition validate_NetworkMetrics ::
  "loc \<Rightarrow> NetworkMetrics_in \<Rightarrow> loc list + NetworkMetrics" where
  "validate_NetworkMetrics l c =
     ap (ap (ap (ap (ap (ap (ap (ap (Inr (\<lambda>a b c d e f g h.
          \<lparr>Network_bytes_sent = a, Network_bytes_recv = b, Network_packets_sent = c,
           Network_packets_recv = d, Network_errin = e, Network_errout = f,
           Network_dropin = g, Network_dropout = h\<rparr>))
       (required (l @ [Key ''bytes_sent'']) (in_Network_bytes_sent c) (\<lambda>v. 0 \<le> v)))
       (required (l @ [Key ''bytes_recv'']) (in_Network_bytes_recv c) (\<lambda>v. 0 \<le> v)))
       (required (l @ [Key ''packets_sent'']) (in_Network_packets_sent c) (\<lambda>v. 0 \<le> v)))
       (required (l @ [Key ''packets_recv'']) (in_Network_packets_recv c) (\<lambda>v. 0 \<le> v)))
       (with_default (l @ [Key ''errin'']) (in_Network_errin c) 0 (\<lambda>v. 0 \<le> v)))
       (with_default (l @ [Key ''errout'']) (in_Network_errout c) 0 (\<lambda>v. 0 \<le> v)))
       (with_default (l @ [Key ''dropin'']) (in_Network_dropin c) 0 (\<lambda>v. 0 \<le> v)))
       (with_default (l @ [Key ''dropout'']) (in_Network_dropout c) 0 (\<lambda>v. 0 \<le> v))"

definition validate_ProcessMetrics ::
  "loc \<Rightarrow> ProcessMetrics_in \<Rightarrow> loc list + ProcessMetrics" where
  "validate_ProcessMetrics l c =
     ap (ap (ap (ap (Inr (\<lambda>a b c d. \<lparr>Process_pid = a, Process_name = b,
                                     Process_cpu_percent = c, Process_memory_percent = d\<rparr>))
       (required (l @ [Key ''pid'']) (in_Process_pid c) (\<lambda>v. True)))
       (required (l @ [Key ''name'']) (in_Process_name c) (\<lambda>v. True)))
       (required (l @ [Key ''cpu_percent'']) (in_Process_cpu_percent c) (\<lambda>v. 0 \<le> v)))
       (required (l @ [Key ''memory_percent'']) (in_Process_memory_percent c)
          (\<lambda>v. 0 \<le> v \<and> v \<le> 100))"

definition validate_SystemMetrics ::
  "parser \<Rightarrow> loc \<Rightarrow> SystemMetrics_in \<Rightarrow> loc list + SystemMetrics" where
  "validate_SystemMetrics fromisoformat l c =
     ap (ap (ap (ap (ap (ap (ap (ap (ap (Inr (\<lambda>a b c d e f g h i.
          \<lparr>System_timestamp = a, System_hostname = b, System_cpu = c, System_memory = d,
           System_swap = e, System_disk = f, System_network = g, System_top_processes = h,
           System_error = i\<rparr>))
       (required_with (l @ [Key ''timestamp'']) (in_System_timestamp c)
          (validate_timestamp fromisoformat)))
       (required (l @ [Key ''hostname'']) (in_System_hostname c) (\<lambda>v. True)))
       (required_model (l @ [Key ''cpu'']) (in_System_cpu c) validate_CPUMetrics))
       (required_model (l @ [Key ''memory'']) (in_System_memory c) validate_MemoryMetrics))
       (required_model (l @ [Key ''swap'']) (in_System_swap c) validate_SwapMetrics))
       (required_model (l @ [Key ''disk'']) (in_System_disk c)
          (validate_items validate_DiskMetrics 0)))
       (optional_model (l @ [Key ''network'']) (in_System_network c) validate_NetworkMetrics))
       (optional_model (l @ [Key ''top_processes'']) (in_System_top_processes c)
          (validate_items validate_ProcessMetrics 0)))
       (Inr (in_System_error c))"

definition validate_MetricsPayload ::
  "parser \<Rightarrow> MetricsPayload_in \<Rightarrow> loc list + MetricsPayload" where
  "validate_MetricsPayload fromisoformat c =
     ap (ap (Inr (\<lambda>a b. \<lparr>Payload_hostname = a, Payload_metrics = b\<rparr>))
       (required [Key ''hostname''] (in_Payload_hostname c)
          (\<lambda>v. 1 \<le> length v \<and> length v \<le> 255)))
       (required_model [Key ''metrics''] (in_Payload_metrics c)
          (validate_SystemMetrics fromisoformat))"

section \<open>The ingestion endpoint (ingest_metrics, lines 405 to 454)\<close>

datatype response =
  Success str str
| ValidationFailure "loc list"
| HTTPException nat

text \<open>
  The handler body for the SQLite backend. \<open>INFLUXDB_AVAILABLE\<close> tells whether the
  import of the adapter module succeeded: when it failed, \<open>InfluxDBAdapter\<close> is
  \<open>None\<close>, \<open>isinstance(db, None)\<close> raises \<open>TypeError\<close>, and the last
  \<open>except\<close> clause turns it into status 400 before anything is stored.
\<close>

definition ingest_metrics ::
  "int \<Rightarrow> failure option \<Rightarrow> bool \<Rightarrow> database \<Rightarrow> MetricsPayload \<Rightarrow> response \<times> database" where
  "ingest_metrics now fault INFLUXDB_AVAILABLE db payload =
     (if \<not> INFLUXDB_AVAILABLE then (HTTPException 400, db)
      else
        case store_metrics now fault db payload of
          (success, db') \<Rightarrow>
            if success
            then (Success (Payload_hostname payload)
                    (System_timestamp (Payload_metrics payload)), db')
            else (HTTPException 500, db'))"

text \<open>
  A request to \<open>POST /ingest\<close>: the framework validates the body against
  MetricsPayload and calls the handler only with a validated payload.
\<close>

definition post_ingest ::
  "parser \<Rightarrow> int \<Rightarrow> failure option \<Rightarrow> bool \<Rightarrow> database \<Rightarrow> MetricsPayload_in
     \<Rightarrow> response \<times> database" where
  "post_ingest fromisoformat now fault INFLUXDB_AVAILABLE db body =
     (case validate_MetricsPayload fromisoformat body of
        Inl errs \<Rightarrow> (ValidationFailure errs, db)
      | Inr payload \<Rightarrow> ingest_metrics now fault INFLUXDB_AVAILABLE db payload)"

section \<open>A concrete request body\<close>

definition example_body :: MetricsPayload_in where
  "example_body =
     \<lparr>in_Payload_hostname = Some (ascii ''host-a''),
      in_Payload_metrics = Some
        \<lparr>in_System_timestamp = Some (ascii ''2024-01-01T12:00:00+00:00''),
         in_System_hostname = Some (ascii ''host-a''),
         in_System_cpu = Some \<lparr>in_CPU_percent = Some 55.2, in_CPU_count = Some 4,
                                in_CPU_count_logical = Some 8, in_CPU_load_avg = None\<rparr>,
         in_System_memory = Some \<lparr>in_Memory_total = Some 1000, in_Memory_available = Some 300,
                                   in_Memory_percent = Some 70, in_Memory_used = Some 700,
                                   in_Memory_free = Some 300, in_Memory_buffers = None,
                                   in_Memory_cached = None\<rparr>,
         in_System_swap = Some \<lparr>in_Swap_total = Some 0, in_Swap_used = Some 0,
                                 in_Swap_free = Some 0, in_Swap_percent = Some 0\<rparr>,
         in_System_disk = Some [],
         in_System_network = None,
         in_System_top_processes = None,
         in_System_error = None\<rparr>\<rparr>"

text \<open>
  The same body with another hostname of the request, another hostname of the Snapshot,
  or another timestamp, and the payloads they validate to.
\<close>

definition body_with_hostname :: "str \<Rightarrow> MetricsPayload_in" where
  "body_with_hostname h = example_body\<lparr>in_Payload_hostname := Some h\<rparr>"

definition body_with_snapshot_hostname :: "str \<Rightarrow> MetricsPayload_in" where
  "body_with_snapshot_hostname h =
     example_body\<lparr>in_Payload_metrics :=
       map_option (\<lambda>m. m\<lparr>in_System_hostname := Some h\<rparr>) (in_Payload_metrics example_body)\<rparr>"

definition body_with_timestamp :: "str \<Rightarrow> MetricsPayload_in" where
  "body_with_timestamp t =
     example_body\<lparr>in_Payload_metrics :=
       map_option (\<lambda>m. m\<lparr>in_System_timestamp := Some t\<rparr>) (in_Payload_metrics example_body)\<rparr>"

definition payload_with_hostname :: "str \<Rightarrow> MetricsPayload" where
  "payload_with_hostname h = example_payload\<lparr>Payload_hostname := h\<rparr>"

definition payload_with_snapshot_hostname :: "str \<Rightarrow> MetricsPayload" where
  "payload_with_snapshot_hostname h =
     example_payload\<lparr>Payload_metrics := (Payload_metrics example_payload)\<lparr>System_hostname := h\<rparr>\<rparr>"

definition payload_with_timestamp :: "str \<Rightarrow> MetricsPayload" where
  "payload_with_timestamp t =
     example_payload\<lparr>Payload_metrics := (Payload_metrics example_payload)\<lparr>System_timestamp := t\<rparr>\<rparr>"

text \<open>A hostname of 200 times the character U+00E9, which takes two bytes in UTF-8.\<close>

definition long_hostname :: str where
  "long_hostname = replicate 200 233"

text \<open>The same body with an empty hostname and a memory percent of 150.\<close>

definition invalid_body :: MetricsPayload_in where
  "invalid_body =
     example_body\<lparr>in_Payload_hostname := Some [],
        in_Payload_metrics := map_option (\<lambda>m. m\<lparr>in_System_memory :=
           map_option (\<lambda>c. c\<lparr>in_Memory_percent := Some 150\<rparr>) (in_System_memory m)\<rparr>)
             (in_Payload_metrics example_body)\<rparr>"

section \<open>The constraints of the data model, field by field\<close>

text \<open>
  The constraints that the data model puts on a Snapshot, field by field:
  \<open>violates fromisoformat body l\<close> says that the field at location \<open>l\<close> of the
  request body breaks its constraint. A required field breaks it when it is absent or
  holds a value outside the stated range; a field with a default or an optional one
  only when a value is given and lies outside the range. Three constraints are taken
  as the counterexamples to claim C3 leave them: the bound on the hostname is on the
  hostname of the request and counts characters, the Snapshot's own hostname only has
  to be present, and a timestamp breaks its constraint when \<open>fromisoformat\<close> fails
  on it after \<open>Z\<close> is replaced.
\<close>

definition missing_or_outside :: "'a option \<Rightarrow> ('a \<Rightarrow> bool) \<Rightarrow> bool" where
  "missing_or_outside v ok = (case v of None \<Rightarrow> True | Some x \<Rightarrow> \<not> ok x)"

definition given_outside :: "'a option \<Rightarrow> ('a \<Rightarrow> bool) \<Rightarrow> bool" where
  "given_outside v ok = (case v of None \<Rightarrow> False | Some x \<Rightarrow> \<not> ok x)"

inductive violates_cpu :: "CPUMetrics_in \<Rightarrow> loc \<Rightarrow> bool" where
  "missing_or_outside (in_CPU_percent c) (\<lambda>x. 0 \<le> x \<and> x \<le> 100) \<Longrightarrow>
     violates_cpu c [Key ''percent'']"
| "missing_or_outside (in_CPU_count c) (\<lambda>x. 0 < x) \<Longrightarrow> violates_cpu c [Key ''count'']"
| "missing_or_outside (in_CPU_count_logical c) (\<lambda>x. 0 < x) \<Longrightarrow>
     violates_cpu c [Key ''count_logical'']"

inductive violates_memory :: "MemoryMetrics_in \<Rightarrow> loc \<Rightarrow> bool" where
  "missing_or_outside (in_Memory_total c) (\<lambda>x. 0 < x) \<Longrightarrow> violates_memory c [Key ''total'']"
| "missing_or_outside (in_Memory_available c) (\<lambda>x. 0 \<le> x) \<Longrightarrow>
     violates_memory c [Key ''available'']"
| "missing_or_outside (in_Memory_percent c) (\<lambda>x. 0 \<le> x \<and> x \<le> 100) \<Longrightarrow>
     violates_memory c [Key ''percent'']"
| "missing_or_outside (in_Memory_used c) (\<lambda>x. 0 \<le> x) \<Longrightarrow> violates_memory c [Key ''used'']"
| "missing_or_outside (in_Memory_free c) (\<lambda>x. 0 \<le> x) \<Longrightarrow> violates_memory c [Key ''free'']"
| "given_outside (in_Memory_buffers c) (\<lambda>x. 0 \<le> x) \<Longrightarrow> violates_memory c [Key ''buffers'']"
| "given_outside (in_Memory_cached c) (\<lambda>x. 0 \<le> x) \<Longrightarrow> violates_memory c [Key ''cached'']"

inductive violates_swap :: "SwapMetrics_in \<Rightarrow> loc \<Rightarrow> bool" where
  "missing_or_outside (in_Swap_total c) (\<lambda>x. 0 \<le> x) \<Longrightarrow> violates_swap c [Key ''total'']"
| "missing_or_outside (in_Swap_used c) (\<lambda>x. 0 \<le> x) \<Longrightarrow> violates_swap c [Key ''used'']"
| "missing_or_outside (in_Swap_free c) (\<lambda>x. 0 \<le> x) \<Longrightarrow> violates_swap c [Key ''free'']"
| "missing_or_outside (in_Swap_percent c) (\<lambda>x. 0 \<le> x \<and> x \<le> 100) \<Longrightarrow>
     violates_swap c [Key ''percent'']"

inductive violates_disk :: "DiskMetrics_in \<Rightarrow> loc \<Rightarrow> bool" where
  "in_Disk_device c = None \<Longrightarrow> violates_disk c [Key ''device'']"
| "in_Disk_mountpoint c = None \<Longrightarrow> violates_disk c [Key ''mountpoint'']"
| "in_Disk_fstype c = None \<Longrightarrow> violates_disk c [Key ''fstype'']"
| "missing_or_outside (in_Disk_total c) (\<lambda>x. 0 < x) \<Longrightarrow> violates_disk c [Key ''total'']"
| "missing_or_outside (in_Disk_used c) (\<lambda>x. 0 \<le> x) \<Longrightarrow> violates_disk c [Key ''used'']"
| "missing_or_outside (in_Disk_free c) (\<lambda>x. 0 \<le> x) \<Longrightarrow> violates_disk c [Key ''free'']"
| "missing_or_outside (in_Disk_percent c) (\<lambda>x. 0 \<le> x \<and> x \<le> 100) \<Longrightarrow>
     violates_disk c [Key ''percent'']"

inductive violates_network :: "NetworkMetrics_in \<Rightarrow> loc \<Rightarrow> bool" where
  "missing_or_outside (in_Network_bytes_sent c) (\<lambda>x. 0 \<le> x) \<Longrightarrow>
     violates_network c [Key ''bytes_sent'']"
| "missing_or_outside (in_Network_bytes_recv c) (\<lambda>x. 0 \<le> x) \<Longrightarrow>
     violates_network c [Key ''bytes_recv'']"
| "missing_or_outside (in_Network_packets_sent c) (\<lambda>x. 0 \<le> x) \<Longrightarrow>
     violates_network c [Key ''packets_sent'']"
| "missing_or_outside (in_Network_packets_recv c) (\<lambda>x. 0 \<le> x) \<Longrightarrow>
     violates_network c [Key ''packets_recv'']"
| "given_outside (in_Network_errin c) (\<lambda>x. 0 \<le> x) \<Longrightarrow> violates_network c [Key ''errin'']"
| "given_outside (in_Network_errout c) (\<lambda>x. 0 \<le> x) \<Longrightarrow> violates_network c [Key ''errout'']"
| "given_outside (in_Network_dropin c) (\<lambda>x. 0 \<le> x) \<Longrightarrow> violates_network c [Key ''dropin'']"
| "given_outside (in_Network_dropout c) (\<lambda>x. 0 \<le> x) \<Longrightarrow>
     violates_network c [Key ''dropout'']"

inductive violates_process :: "ProcessMetrics_in \<Rightarrow> loc \<Rightarrow> bool" where
  "in_Process_pid c = None \<Longrightarrow> violates_process c [Key ''pid'']"
| "in_Process_name c = None \<Longrightarrow> violates_process c [Key ''name'']"
| "missing_or_outside (in_Process_cpu_percent c) (\<lambda>x. 0 \<le> x) \<Longrightarrow>
     violates_process c [Key ''cpu_percent'']"
| "missing_or_outside (in_Process_memory_percent c) (\<lambda>x. 0 \<le> x \<and> x \<le> 100) \<Longrightarrow>
     violates_process c [Key ''memory_percent'']"

text \<open>An entry of a sequence breaks a constraint at its index.\<close>

inductive violates_items :: "('c \<Rightarrow> loc \<Rightarrow> bool) \<Rightarrow> 'c list \<Rightarrow> loc \<Rightarrow> bool"
  for V :: "'c \<Rightarrow> loc \<Rightarrow> bool" where
  "i < length cs \<Longrightarrow> V (cs ! i) l \<Longrightarrow> violates_items V cs (Index i # l)"

inductive violates_snapshot :: "parser \<Rightarrow> SystemMetrics_in \<Rightarrow> loc \<Rightarrow> bool"
  for fromisoformat :: parser where
  "missing_or_outside (in_System_timestamp s) (\<lambda>t. fromisoformat (replace_Z t) \<noteq> None) \<Longrightarrow>
     violates_snapshot fromisoformat s [Key ''timestamp'']"
| "in_System_hostname s = None \<Longrightarrow> violates_snapshot fromisoformat s [Key ''hostname'']"
| "in_System_cpu s = None \<Longrightarrow> violates_snapshot fromisoformat s [Key ''cpu'']"
| "in_System_cpu s = Some c \<Longrightarrow> violates_cpu c l \<Longrightarrow>
     violates_snapshot fromisoformat s (Key ''cpu'' # l)"
| "in_System_memory s = None \<Longrightarrow> violates_snapshot fromisoformat s [Key ''memory'']"
| "in_System_memory s = Some m \<Longrightarrow> violates_memory m l \<Longrightarrow>
     violates_snapshot fromisoformat s (Key ''memory'' # l)"
| "in_System_swap s = None \<Longrightarrow> violates_snapshot fromisoformat s [Key ''swap'']"
| "in_System_swap s = Some w \<Longrightarrow> violates_swap w l \<Longrightarrow>
     violates_snapshot fromisoformat s (Key ''swap'' # l)"
| "in_System_disk s = None \<Longrightarrow> violates_snapshot fromisoformat s [Key ''disk'']"
| "in_System_disk s = Some ds \<Longrightarrow> violates_items violates_disk ds l \<Longrightarrow>
     violates_snapshot fromisoformat s (Key ''disk'' # l)"
| "in_System_network s = Some n \<Longrightarrow> violates_network n l \<Longrightarrow>
     violates_snapshot fromisoformat s (Key ''network'' # l)"
| "in_System_top_processes s = Some ps \<Longrightarrow> violates_items violates_process ps l \<Longrightarrow>
     violates_snapshot fromisoformat s (Key ''top_processes'' # l)"

inductive violates :: "parser \<Rightarrow> MetricsPayload_in \<Rightarrow> loc \<Rightarrow> bool"
  for fromisoformat :: parser where
  "missing_or_outside (in_Payload_hostname b) (\<lambda>h. 1 \<le> length h \<and> length h \<le> 255) \<Longrightarrow>
     violates fromisoformat b [Key ''hostname'']"
| "in_Payload_metrics b = None \<Longrightarrow> violates fromisoformat b [Key ''metrics'']"
| "in_Payload_metrics b = Some s \<Longrightarrow> violates_snapshot fromisoformat s l \<Longrightarrow>
     violates fromisoformat b (Key ''metrics'' # l)"

section \<open>Basic facts about the four methods\<close>

lemma store_metrics_fails:
  "store_metrics now (Some f) db p = (False, db)"
  by (cases f) (simp_all add: store_metrics_def connect_def rollback_def close_def Let_def)

lemma store_metrics_ok:
  "bindable p \<Longrightarrow> sqlite_integer (next_rowid db) \<Longrightarrow>
     store_metrics now None db p = (True, insert_metrics now p db)"
  by (simp add: store_metrics_def connect_def commit_def close_def Let_def)


lemma store_metrics_True:
  assumes "store_metrics now fault db p = (True, db')"
  shows "db' = insert_metrics now p db \<and> bindable p \<and> fault = None"
proof (cases fault)
  case None
  with assms show ?thesis
    by (auto simp add: store_metrics_def connect_def commit_def rollback_def close_def Let_def
        split: if_splits)
next
  case (Some f)
  with assms show ?thesis by (simp add: store_metrics_fails)
qed

lemma store_metrics_cases:
  "snd (store_metrics now fault db p) = db
   \<or> snd (store_metrics now fault db p) = insert_metrics now p db"
  by (auto simp add: store_metrics_def connect_def commit_def rollback_def close_def Let_def)

lemma cleanup_old_data_fails:
  "cleanup_old_data now (Some f) db d = (0, db)"
  by (cases f)
     (simp_all add: cleanup_old_data_def connect_def rollback_def close_def Let_def
        split: option.splits)

lemma cleanup_old_data_overflow:
  "\<not> representable (now - 86400000000 * d) \<Longrightarrow> cleanup_old_data now fault db d = (0, db)"
  by (simp add: cleanup_old_data_def minus_timedelta_def connect_def rollback_def close_def Let_def)

lemma cleanup_old_data_ok:
  "representable (now - 86400000000 * d) \<Longrightarrow>
     cleanup_old_data now None db d =
       (int (length (filter (earlier_than (sqlite_datetime (now - 86400000000 * d)))
               (metrics_table db))),
        delete_old (sqlite_datetime (now - 86400000000 * d)) db)"
  by (simp add: cleanup_old_data_def minus_timedelta_def connect_def commit_def close_def Let_def)

lemma cleanup_old_data_cases:
  "snd (cleanup_old_data now fault db d) = db
   \<or> snd (cleanup_old_data now fault db d) =
        delete_old (sqlite_datetime (now - 86400000000 * d)) db"
proof (cases fault)
  case None
  then show ?thesis
    by (cases "representable (now - 86400000000 * d)")
       (simp_all add: cleanup_old_data_ok cleanup_old_data_overflow)
next
  case (Some f)
  then show ?thesis by (simp add: cleanup_old_data_fails)
qed

lemma get_recent_metrics_overflow:
  "\<not> representable (now - 3600000000 * hours) \<Longrightarrow> get_recent_metrics now fault db host hours = []"
  by (simp add: get_recent_metrics_def minus_timedelta_def)

lemma get_recent_metrics_host:
  "representable (now - 3600000000 * hours) \<Longrightarrow> h \<noteq> [] \<Longrightarrow> sqlite_text h \<Longrightarrow>
     get_recent_metrics now None db (Some h) hours =
       recent_of_host h (sqlite_datetime (now - 3600000000 * hours)) (metrics_table db)"
  by (simp add: get_recent_metrics_def minus_timedelta_def truthy_def connect_def)

lemma get_recent_metrics_all:
  "representable (now - 3600000000 * hours) \<Longrightarrow> \<not> truthy host \<Longrightarrow>
     get_recent_metrics now None db host hours =
       recent_of_all (sqlite_datetime (now - 3600000000 * hours)) (metrics_table db)"
  by (simp add: get_recent_metrics_def minus_timedelta_def connect_def)

lemma get_recent_metrics_cases:
  "get_recent_metrics now fault db host hours = []
   \<or> (\<exists>h. host = Some h \<and> h \<noteq> [] \<and>
         get_recent_metrics now fault db host hours =
           recent_of_host h (sqlite_datetime (now - 3600000000 * hours)) (metrics_table db))
   \<or> (\<not> truthy host \<and>
         get_recent_metrics now fault db host hours =
           recent_of_all (sqlite_datetime (now - 3600000000 * hours)) (metrics_table db))"
  by (auto simp add: get_recent_metrics_def minus_timedelta_def truthy_def connect_def Let_def
      split: option.splits)

lemma later_than_within:
  "later_than (sqlite_datetime t) r \<Longrightarrow> t < 1000000 * created_at r"
  by (auto simp add: later_than_def sqlite_datetime_def split: if_splits)



lemma fold_max_ge: "(a::int) \<le> fold max xs a"
  by (induction xs arbitrary: a) (auto intro: order_trans [OF max.cobounded2])

lemma fold_max_mem: "x \<in> set xs \<Longrightarrow> (x::int) \<le> fold max xs a"
proof (induction xs arbitrary: a)
  case Nil
  then show ?case by simp
next
  case (Cons y ys)
  show ?case
  proof (cases "x = y")
    case True
    have "y \<le> max y a" by simp
    also have "\<dots> \<le> fold max ys (max y a)" by (rule fold_max_ge)
    finally show ?thesis using True by simp
  next
    case False
    with Cons show ?thesis by simp
  qed
qed

lemma fold_max_bounded: "\<forall>x \<in> set xs. x \<le> a \<Longrightarrow> fold max xs (a::int) = a"
  by (induction xs) (simp_all add: max_def)

lemma next_rowid_fresh: "r \<in> set (metrics_table db) \<Longrightarrow> row_id r < next_rowid db"
  using fold_max_mem [of "row_id r" "map row_id (metrics_table db)" "metrics_seq db"]
  by (simp add: next_rowid_def)

lemma next_rowid_seq: "metrics_seq db < next_rowid db"
  using fold_max_ge [of "metrics_seq db" "map row_id (metrics_table db)"]
  by (simp add: next_rowid_def)

lemma insert_metrics_rows:
  "metrics_table (insert_metrics now p db) = metrics_table db @ [new_row now p db]"
  by (simp add: insert_metrics_def new_row_def Let_def)

lemma insert_metrics_seq:
  "metrics_seq (insert_metrics now p db) = next_rowid db"
  by (simp add: insert_metrics_def Let_def)

lemma new_row_fields:
  "row_id (new_row now p db) = next_rowid db"
  "created_at (new_row now p db) = current_timestamp now"
  "hostname (new_row now p db) = Payload_hostname p"
  "timestamp (new_row now p db) = System_timestamp (Payload_metrics p)"
  "cpu_percent (new_row now p db) = CPU_percent (System_cpu (Payload_metrics p))"
  "memory_percent (new_row now p db) = Memory_percent (System_memory (Payload_metrics p))"
  "memory_total (new_row now p db) = Memory_total (System_memory (Payload_metrics p))"
  "memory_used (new_row now p db) = Memory_used (System_memory (Payload_metrics p))"
  "swap_percent (new_row now p db) = Swap_percent (System_swap (Payload_metrics p))"
  by (simp_all add: insert_metrics_def new_row_def Let_def)

section \<open>The concrete states\<close>

lemma example_bindable: "bindable example_payload"
  by (simp add: bindable_def example_payload_def sqlite_text_def sqlite_integer_def ascii_def)

lemma insert_example:
  "insert_metrics now example_payload db =
     \<lparr>metrics_table = metrics_table db @ [example_row (next_rowid db) (now div 1000000)],
      metrics_seq = next_rowid db\<rparr>"
  by (simp add: insert_metrics_def example_row_def example_payload_def current_timestamp_def
      Let_def)

lemma store_example_eq:
  "sqlite_integer (next_rowid db) \<Longrightarrow>
     store_example now db =
       \<lparr>metrics_table = metrics_table db @ [example_row (next_rowid db) (now div 1000000)],
        metrics_seq = next_rowid db\<rparr>"
  by (simp add: store_example_def store_metrics_ok example_bindable insert_example)

lemma example_row_fields [simp]:
  "created_at (example_row i s) = s"
  "row_id (example_row i s) = i"
  "hostname (example_row i s) = ascii ''host-a''"
  by (simp_all add: example_row_def)

lemma one_row:
  "store_example t empty_database =
     \<lparr>metrics_table = [example_row 1 (t div 1000000)], metrics_seq = 1\<rparr>"
  by (simp add: store_example_eq next_rowid_def empty_database_def sqlite_integer_def)

lemma two_rows:
  "store_example t' (store_example t empty_database) =
     \<lparr>metrics_table = [example_row 1 (t div 1000000), example_row 2 (t' div 1000000)],
      metrics_seq = 2\<rparr>"
  by (simp add: one_row store_example_eq next_rowid_def sqlite_integer_def)

lemmas clock_defs = new_year_2024_def one_second_def one_day_def one_hour_def
  representable_def datetime_max_def sqlite_datetime_def



lemma ex_scenario:
  "cleanup_old_data (new_year_2024 + 40 * one_day) None
     (store_example (new_year_2024 + 39 * one_day) (store_example new_year_2024 empty_database)) 30
   = (1, \<lparr>metrics_table = [example_row 2 63843033600], metrics_seq = 2\<rparr>)"
  by (simp add: two_rows cleanup_old_data_ok earlier_than_def delete_old_def clock_defs)

section \<open>Facts about windows and cutoffs\<close>





lemma delete_old_rows:
  "metrics_table (delete_old c db) = filter (\<lambda>r. \<not> earlier_than c r) (metrics_table db)"
  by (simp add: delete_old_def)


section \<open>Facts about the two read methods\<close>

lemma set_recent_of_host:
  "r \<in> set (recent_of_host h c rs) \<Longrightarrow> r \<in> set rs \<and> hostname r = h \<and> later_than c r"
  by (auto simp add: recent_of_host_def dest!: in_set_takeD)

lemma set_recent_of_all:
  "r \<in> set (recent_of_all c rs) \<Longrightarrow> r \<in> set rs \<and> later_than c r"
  by (auto simp add: recent_of_all_def dest!: in_set_takeD)

lemma sorted_recent_of_host:
  "sorted_wrt (\<lambda>a b. created_at b \<le> created_at a) (recent_of_host h c rs)"
proof -
  have "sorted (map (\<lambda>r. - created_at r) (sort_key (\<lambda>r. - created_at r) xs))" for xs :: "row list"
    by simp
  then have "sorted_wrt (\<lambda>a b. created_at b \<le> created_at a)
      (sort_key (\<lambda>r. - created_at r) xs)" for xs :: "row list"
    by (simp add: sorted_map)
  then show ?thesis
    by (simp add: recent_of_host_def sorted_wrt_take)
qed

lemma sorted_recent_of_all:
  "sorted_wrt (\<lambda>a b. created_at b \<le> created_at a) (recent_of_all c rs)"
proof -
  have "sorted (map created_at (sort_key created_at xs))" for xs :: "row list"
    by simp
  then have "sorted_wrt (\<lambda>a b. created_at a \<le> created_at b) (sort_key created_at xs)"
    for xs :: "row list"
    by (simp add: sorted_map)
  then have "sorted_wrt (\<lambda>a b. created_at b \<le> created_at a) (rev (sort_key created_at xs))"
    for xs :: "row list"
    by (simp add: sorted_wrt_rev)
  then show ?thesis
    by (simp add: recent_of_all_def sorted_wrt_take)
qed

lemma length_recent_of_host:
  "length (recent_of_host h c rs) =
     min 1000 (length (filter (\<lambda>r. hostname r = h \<and> later_than c r) rs))"
  by (simp add: recent_of_host_def)

lemma length_recent_of_all:
  "length (recent_of_all c rs) = min 1000 (length (filter (later_than c) rs))"
  by (simp add: recent_of_all_def)

lemma host_a_text: "ascii ''host-a'' \<noteq> [] \<and> sqlite_text (ascii ''host-a'')"
  by (simp add: ascii_def sqlite_text_def)

lemma sort_key_single: "sort_key f [x] = [x]"
  by simp

section \<open>The summary\<close>

lemma get_summary_stats_host:
  "representable (now - 3600000000 * hours) \<Longrightarrow> h \<noteq> [] \<Longrightarrow> sqlite_text h \<Longrightarrow>
     get_summary_stats now None db (Some h) hours =
       Some (aggregate (filter
         (\<lambda>r. later_than (sqlite_datetime (now - 3600000000 * hours)) r \<and> hostname r = h)
         (metrics_table db)))"
  by (simp add: get_summary_stats_def minus_timedelta_def truthy_def connect_def)

lemma get_summary_stats_all:
  "representable (now - 3600000000 * hours) \<Longrightarrow> \<not> truthy host \<Longrightarrow>
     get_summary_stats now None db host hours =
       Some (aggregate (filter (later_than (sqlite_datetime (now - 3600000000 * hours)))
         (metrics_table db)))"
  by (simp add: get_summary_stats_def minus_timedelta_def connect_def)

lemma get_summary_stats_overflow:
  "\<not> representable (now - 3600000000 * hours) \<Longrightarrow> get_summary_stats now fault db host hours = None"
  by (simp add: get_summary_stats_def minus_timedelta_def)

text \<open>The rows that a filter and a cutoff select, whatever the query.\<close>

lemma matching_host:
  "h \<noteq> [] \<Longrightarrow>
     filter (\<lambda>r. later_than c r \<and> (\<forall>h'. Some h = Some h' \<and> h' \<noteq> [] \<longrightarrow> hostname r = h')) rs
       = filter (\<lambda>r. hostname r = h \<and> later_than c r) rs"
  by (rule filter_cong) auto

lemma matching_all:
  "\<not> truthy host \<Longrightarrow>
     filter (\<lambda>r. later_than c r \<and> (\<forall>h. host = Some h \<and> h \<noteq> [] \<longrightarrow> hostname r = h)) rs
       = filter (later_than c) rs"
  by (rule filter_cong) (auto simp add: truthy_def split: option.splits)

lemma host_b_text: "ascii ''host-b'' \<noteq> [] \<and> sqlite_text (ascii ''host-b'')
    \<and> ascii ''host-a'' \<noteq> ascii ''host-b''"
  by (simp add: ascii_def sqlite_text_def)

section \<open>The invariant\<close>

lemma ids_inv_empty: "ids_inv empty_database"
  by (simp add: ids_inv_def empty_database_def)

lemma ids_inv_insert:
  assumes "ids_inv db"
  shows "ids_inv (insert_metrics now p db)"
proof -
  have ids: "\<forall>r \<in> set (metrics_table db). row_id r < next_rowid db"
    by (simp add: next_rowid_fresh)
  then have le: "\<forall>r \<in> set (metrics_table db). row_id r \<le> next_rowid db"
    by (auto intro: less_imp_le)
  show ?thesis
    using assms ids le
    by (simp add: ids_inv_def insert_metrics_def Let_def sorted_wrt_append list_all_iff)
qed

lemma ids_inv_delete: "ids_inv db \<Longrightarrow> ids_inv (delete_old c db)"
  by (simp add: ids_inv_def delete_old_def sorted_wrt_map sorted_wrt_filter list_all_iff)

lemma ids_inv_store: "ids_inv db \<Longrightarrow> ids_inv (snd (store_metrics now fault db p))"
  using store_metrics_cases [of now fault db p] by (auto simp add: ids_inv_insert)

lemma ids_inv_cleanup: "ids_inv db \<Longrightarrow> ids_inv (snd (cleanup_old_data now fault db d))"
  using cleanup_old_data_cases [of now fault db d] by (auto simp add: ids_inv_delete)

lemma reachable_ids: "reachable ts db \<Longrightarrow> ids_inv db"
  by (induction rule: reachable.induct) (simp_all add: ids_inv_empty ids_inv_store ids_inv_cleanup)

lemma reachable_created:
  "reachable ts db \<Longrightarrow>
     \<forall>r \<in> set (metrics_table db). \<exists>t \<in> set ts. created_at r = current_timestamp t"
proof (induction rule: reachable.induct)
  case init
  show ?case by (simp add: empty_database_def)
next
  case (store ts db now fault payload)
  from store_metrics_cases [of now fault db payload] show ?case
  proof
    assume "snd (store_metrics now fault db payload) = db"
    with store.IH show ?thesis by auto
  next
    assume "snd (store_metrics now fault db payload) = insert_metrics now payload db"
    with store.IH show ?thesis
      by (auto simp add: insert_metrics_rows new_row_fields)
  qed
next
  case (cleanup ts db now fault days)
  from cleanup_old_data_cases [of now fault db days] show ?case
  proof
    assume "snd (cleanup_old_data now fault db days) = db"
    with cleanup.IH show ?thesis by simp
  next
    assume "snd (cleanup_old_data now fault db days) =
        delete_old (sqlite_datetime (now - 86400000000 * days)) db"
    with cleanup.IH show ?thesis by (simp add: delete_old_rows)
  qed
qed

lemma reachable_sorted:
  "reachable ts db \<Longrightarrow> sorted (map current_timestamp ts) \<Longrightarrow>
     sorted (map created_at (metrics_table db))"
proof (induction rule: reachable.induct)
  case init
  show ?case by (simp add: empty_database_def)
next
  case (store ts db now fault payload)
  from store.prems have s: "sorted (map current_timestamp ts)"
    and le: "\<forall>t \<in> set ts. current_timestamp t \<le> current_timestamp now"
    by (auto simp add: sorted_append)
  from s have IH: "sorted (map created_at (metrics_table db))" by (rule store.IH)
  from reachable_created [OF store.hyps] le
  have "\<forall>r \<in> set (metrics_table db). created_at r \<le> current_timestamp now" by fastforce
  with IH store_metrics_cases [of now fault db payload] show ?case
    by (auto simp add: insert_metrics_rows new_row_fields sorted_append)
next
  case (cleanup ts db now fault days)
  then have "sorted (map created_at (metrics_table db))" by simp
  with cleanup_old_data_cases [of now fault db days] show ?case
    by (auto simp add: delete_old_rows sorted_map sorted_wrt_filter)
qed

section \<open>Where a new row stands in a sorted and capped result\<close>






section \<open>A thousand rows within one second\<close>

lemma next_rowid_bounded:
  "\<forall>r \<in> set (metrics_table db). row_id r \<le> metrics_seq db \<Longrightarrow>
     next_rowid db = metrics_seq db + 1"
  by (simp add: next_rowid_def fold_max_bounded)

lemma many_rows:
  "n \<le> 2000 \<Longrightarrow>
     (store_example t ^^ n) empty_database =
       \<lparr>metrics_table = map (\<lambda>i. example_row (int i) (t div 1000000)) [1..<Suc n],
        metrics_seq = int n\<rparr>"
proof (induction n)
  case 0
  show ?case by (simp add: empty_database_def)
next
  case (Suc n)
  let ?db = "\<lparr>metrics_table = map (\<lambda>i. example_row (int i) (t div 1000000)) [1..<Suc n],
        metrics_seq = int n\<rparr>"
  from Suc have db: "(store_example t ^^ n) empty_database = ?db" by simp
  have nx: "next_rowid ?db = int n + 1"
    by (subst next_rowid_bounded) auto
  with Suc.prems have "sqlite_integer (next_rowid ?db)"
    by (simp add: sqlite_integer_def)
  then have "store_example t ?db =
      \<lparr>metrics_table = metrics_table ?db @ [example_row (next_rowid ?db) (t div 1000000)],
       metrics_seq = next_rowid ?db\<rparr>"
    by (rule store_example_eq)
  with db nx show ?case by (simp add: add.commute)
qed




lemma store_example_True:
  "sqlite_integer (next_rowid db) \<Longrightarrow>
     store_metrics now None db example_payload = (True, store_example now db)"
  by (simp add: store_example_def store_metrics_ok example_bindable)




lemma ex_duplicates:
  "map row_id (get_recent_metrics new_year_2024 None
      (store_example new_year_2024 (store_example new_year_2024 empty_database))
      (Some (ascii ''host-a'')) 1) = [1, 2]"
  using host_a_text
  by (simp add: get_recent_metrics_host two_rows recent_of_host_def later_than_def clock_defs)



section \<open>Basic facts about validation\<close>

lemma errors_ap: "errors_of (ap f x) = errors_of f @ errors_of x"
  by (cases f; cases x) (simp_all add: ap_def)

lemma errors_required:
  "errors_of (required l v ok) = (if missing_or_outside v ok then [l] else [])"
  by (simp add: required_def missing_or_outside_def split: option.splits)

lemma errors_with_default:
  "errors_of (with_default l v d ok) = (if given_outside v ok then [l] else [])"
  by (simp add: with_default_def given_outside_def split: option.splits)

lemma errors_timestamp:
  "errors_of (required_with l v (validate_timestamp fromisoformat)) =
     (if missing_or_outside v (\<lambda>t. fromisoformat (replace_Z t) \<noteq> None) then [l] else [])"
  by (simp add: required_with_def missing_or_outside_def validate_timestamp_def
      split: option.splits)

lemma errors_required_model:
  "errors_of (required_model l v f) = (case v of None \<Rightarrow> [l] | Some c \<Rightarrow> errors_of (f l c))"
  by (simp add: required_model_def split: option.splits)

lemma errors_optional_model:
  "errors_of (optional_model l v f) = (case v of None \<Rightarrow> [] | Some c \<Rightarrow> errors_of (f l c))"
  by (simp add: optional_model_def errors_ap split: option.splits)

lemma missing_None: "missing_or_outside None ok"
  by (simp add: missing_or_outside_def)

lemma cpu_named:
  "violates_cpu c k \<Longrightarrow> l @ k \<in> set (errors_of (validate_CPUMetrics l c))"
  by (induction rule: violates_cpu.induct)
     (simp_all add: validate_CPUMetrics_def errors_ap errors_required)

lemma memory_named:
  "violates_memory c k \<Longrightarrow> l @ k \<in> set (errors_of (validate_MemoryMetrics l c))"
  by (induction rule: violates_memory.induct)
     (simp_all add: validate_MemoryMetrics_def errors_ap errors_required errors_with_default)

lemma swap_named:
  "violates_swap c k \<Longrightarrow> l @ k \<in> set (errors_of (validate_SwapMetrics l c))"
  by (induction rule: violates_swap.induct)
     (simp_all add: validate_SwapMetrics_def errors_ap errors_required)

lemma disk_named:
  "violates_disk c k \<Longrightarrow> l @ k \<in> set (errors_of (validate_DiskMetrics l c))"
  by (induction rule: violates_disk.induct)
     (simp_all add: validate_DiskMetrics_def errors_ap errors_required missing_None)

lemma network_named:
  "violates_network c k \<Longrightarrow> l @ k \<in> set (errors_of (validate_NetworkMetrics l c))"
  by (induction rule: violates_network.induct)
     (simp_all add: validate_NetworkMetrics_def errors_ap errors_required errors_with_default)

lemma process_named:
  "violates_process c k \<Longrightarrow> l @ k \<in> set (errors_of (validate_ProcessMetrics l c))"
  by (induction rule: violates_process.induct)
     (simp_all add: validate_ProcessMetrics_def errors_ap errors_required missing_None)

lemma items_named_at:
  assumes f: "\<And>c k l. V c k \<Longrightarrow> l @ k \<in> set (errors_of (f l c))"
  shows "j < length cs \<Longrightarrow> V (cs ! j) k \<Longrightarrow>
     l @ Index (i + j) # k \<in> set (errors_of (validate_items f i l cs))"
proof (induction cs arbitrary: i j)
  case Nil
  then show ?case by simp
next
  case (Cons c cs)
  show ?case
  proof (cases j)
    case 0
    with Cons.prems have "V c k" by simp
    from f [OF this, of "l @ [Index i]"] 0 show ?thesis
      by (simp add: errors_ap)
  next
    case (Suc j')
    with Cons.prems have "j' < length cs" and "V (cs ! j') k" by simp_all
    from Cons.IH [OF this, of "Suc i"] Suc show ?thesis
      by (simp add: errors_ap)
  qed
qed

lemma items_named:
  assumes f: "\<And>c k l. V c k \<Longrightarrow> l @ k \<in> set (errors_of (f l c))"
    and v: "violates_items V cs k"
  shows "l @ k \<in> set (errors_of (validate_items f 0 l cs))"
  using v
proof cases
  case (1 i k')
  from items_named_at [of V f i cs k' l 0, OF f] 1 show ?thesis by simp
qed

lemma snapshot_named:
  "violates_snapshot P s k \<Longrightarrow> l @ k \<in> set (errors_of (validate_SystemMetrics P l s))"
proof (induction rule: violates_snapshot.induct)
  case (4 s c k)
  from cpu_named [OF 4(2), of "l @ [Key ''cpu'']"] 4(1) show ?case
    by (simp add: validate_SystemMetrics_def errors_ap errors_required_model)
next
  case (6 s m k)
  from memory_named [OF 6(2), of "l @ [Key ''memory'']"] 6(1) show ?case
    by (simp add: validate_SystemMetrics_def errors_ap errors_required_model)
next
  case (8 s w k)
  from swap_named [OF 8(2), of "l @ [Key ''swap'']"] 8(1) show ?case
    by (simp add: validate_SystemMetrics_def errors_ap errors_required_model)
next
  case (10 s ds k)
  from items_named [of violates_disk validate_DiskMetrics ds k "l @ [Key ''disk'']",
      OF disk_named 10(2)] 10(1)
  show ?case
    by (simp add: validate_SystemMetrics_def errors_ap errors_required_model)
next
  case (11 s n k)
  from network_named [OF 11(2), of "l @ [Key ''network'']"] 11(1) show ?case
    by (simp add: validate_SystemMetrics_def errors_ap errors_optional_model)
next
  case (12 s ps k)
  from items_named [of violates_process validate_ProcessMetrics ps k
      "l @ [Key ''top_processes'']", OF process_named 12(2)] 12(1)
  show ?case
    by (simp add: validate_SystemMetrics_def errors_ap errors_optional_model)
qed (simp_all add: validate_SystemMetrics_def errors_ap errors_required errors_timestamp
    errors_required_model missing_None)

lemma payload_named:
  "violates P b k \<Longrightarrow> k \<in> set (errors_of (validate_MetricsPayload P b))"
proof (induction rule: violates.induct)
  case (3 b s k)
  from snapshot_named [OF 3(2), of "[Key ''metrics'']"] 3(1) show ?case
    by (simp add: validate_MetricsPayload_def errors_ap errors_required_model)
qed (simp_all add: validate_MetricsPayload_def errors_ap errors_required errors_required_model)

lemma errors_nonempty: "k \<in> set (errors_of r) \<Longrightarrow> r = Inl (errors_of r)"
  by (cases r) simp_all

section \<open>The concrete bodies\<close>

lemmas iso_defs = isoformat_parser_def parse_date_def parse_time_def parse_fraction_def
  parse_offset_def digits_def is_digit_def ch_def ascii_def replace_Z_def
  validate_timestamp_def days_in_month_def is_leap_def Let_def

lemmas validate_defs = validate_MetricsPayload_def validate_SystemMetrics_def
  validate_CPUMetrics_def validate_MemoryMetrics_def validate_SwapMetrics_def
  validate_DiskMetrics_def validate_NetworkMetrics_def validate_ProcessMetrics_def
  required_def with_default_def required_with_def required_model_def optional_model_def ap_def

lemma length_ascii: "length (ascii s) = length s"
  by (simp add: ascii_def)

lemma example_timestamp_ok:
  "validate_timestamp isoformat_parser (ascii ''2024-01-01T12:00:00+00:00'') =
     Some (ascii ''2024-01-01T12:00:00+00:00'')"
  by (simp add: iso_defs)

lemma date_only_ok:
  "validate_timestamp isoformat_parser (ascii ''2024-01-01'') = Some (ascii ''2024-01-01'')"
  by (simp add: iso_defs)

lemma date_only_naive:
  "map_option tzinfo (isoformat_parser (ascii ''2024-01-01'')) = Some None"
  by (simp add: iso_defs)

lemma naive_ok:
  "validate_timestamp isoformat_parser (ascii ''2024-01-01T12:00:00'')
     = Some (ascii ''2024-01-01T12:00:00'')
   \<and> map_option tzinfo (isoformat_parser (ascii ''2024-01-01T12:00:00'')) = Some None"
  by (simp add: iso_defs)

lemma underscore_ok:
  "validate_timestamp isoformat_parser (ascii ''2024-01-01_12:00:00+00:00'')
     = Some (ascii ''2024-01-01_12:00:00+00:00'')"
  by (simp add: iso_defs)

lemma zulu_ok:
  "validate_timestamp isoformat_parser (ascii ''2024-01-01T12:00:00.250000Z'')
     = Some (ascii ''2024-01-01T12:00:00.250000Z'')
   \<and> map_option tzinfo (isoformat_parser (replace_Z (ascii ''2024-01-01T12:00:00.250000Z'')))
       = Some (Some 0)
   \<and> map_option microsecond (isoformat_parser (replace_Z (ascii ''2024-01-01T12:00:00.250000Z'')))
       = Some 250000"
  by (simp add: iso_defs)

lemma offset_ok:
  "map_option tzinfo (isoformat_parser (ascii ''2024-02-29 23:59:59-05:30''))
       = Some (Some (- 19800000000))
   \<and> isoformat_parser (ascii ''2023-02-29'') = None
   \<and> isoformat_parser (ascii ''yesterday'') = None
   \<and> isoformat_parser [] = None
   \<and> isoformat_parser (ascii ''2024-01-01T12:00:00+24:00'') = None
   \<and> isoformat_parser (ascii ''2024-01-01T'') = None"
  by (simp add: iso_defs)

lemma example_body_valid:
  "validate_MetricsPayload isoformat_parser example_body = Inr example_payload"
  by (simp add: validate_defs example_body_def example_payload_def example_timestamp_ok
      length_ascii)

lemma long_hostname_valid:
  "validate_MetricsPayload isoformat_parser (body_with_hostname long_hostname)
     = Inr (payload_with_hostname long_hostname)"
  by (simp add: validate_defs body_with_hostname_def payload_with_hostname_def long_hostname_def
      example_body_def example_payload_def example_timestamp_ok)

lemma empty_snapshot_hostname_valid:
  "validate_MetricsPayload isoformat_parser (body_with_snapshot_hostname [])
     = Inr (payload_with_snapshot_hostname [])"
  by (simp add: validate_defs body_with_snapshot_hostname_def payload_with_snapshot_hostname_def
      example_body_def example_payload_def example_timestamp_ok length_ascii)

lemma date_only_valid:
  "validate_MetricsPayload isoformat_parser (body_with_timestamp (ascii ''2024-01-01''))
     = Inr (payload_with_timestamp (ascii ''2024-01-01''))"
  by (simp add: validate_defs body_with_timestamp_def payload_with_timestamp_def
      example_body_def example_payload_def date_only_ok length_ascii)

lemma invalid_body_errors:
  "validate_MetricsPayload isoformat_parser invalid_body =
     Inl [[Key ''hostname''], [Key ''metrics'', Key ''memory'', Key ''percent'']]"
  by (simp add: validate_defs invalid_body_def example_body_def example_timestamp_ok)

lemma post_ingest_valid:
  "validate_MetricsPayload P body = Inr p \<Longrightarrow> bindable p \<Longrightarrow>
     snd (post_ingest P now None True empty_database body) = insert_metrics now p empty_database"
  by (simp add: post_ingest_def ingest_metrics_def store_metrics_ok next_rowid_def
      empty_database_def sqlite_integer_def)

lemma ap_Inr_iff: "ap f x = Inr y \<longleftrightarrow> (\<exists>g v. f = Inr g \<and> x = Inr v \<and> y = g v)"
  by (cases f; cases x) (auto simp add: ap_def)

lemma required_with_Inr:
  "required_with l v f = Inr y \<longleftrightarrow> (\<exists>x. v = Some x \<and> f x = Some y)"
  by (simp add: required_with_def split: option.splits)

lemma required_model_Inr:
  "required_model l v f = Inr y \<longleftrightarrow> (\<exists>c. v = Some c \<and> f l c = Inr y)"
  by (simp add: required_model_def split: option.splits)

lemma validate_timestamp_Some:
  "validate_timestamp P v = Some y \<longleftrightarrow> y = v \<and> P (replace_Z v) \<noteq> None"
  by (auto simp add: validate_timestamp_def split: option.splits)

lemma system_timestamp_valid:
  assumes "validate_SystemMetrics P l m = Inr s"
  shows "in_System_timestamp m = Some (System_timestamp s)
    \<and> P (replace_Z (System_timestamp s)) \<noteq> None"
  using assms
  by (auto simp add: validate_SystemMetrics_def ap_Inr_iff required_with_Inr
      validate_timestamp_Some)


lemma ex_1001_rows:
  "(store_example new_year_2024 ^^ 1001) empty_database =
      \<lparr>metrics_table =
        map (\<lambda>i. example_row (int i) (new_year_2024 div 1000000)) [1..<Suc 1001],
      metrics_seq = int 1001\<rparr>"
  by (rule many_rows) simp

section \<open>The claims\<close>

text \<open>
  Claim C2, as amended. For every hostname filter and window, and whatever happens in the
  storage, \<open>get_recent_metrics\<close> returns only rows of the table whose \<open>created_at\<close> is
  later than the clock minus the window, all of the given hostname when a non-empty
  hostname is given (the empty string is no filter), newest first, and at most 1000 of
  them.
\<close>

theorem get_recent_metrics_sound:
  "(\<forall>r \<in> set (get_recent_metrics now fault db host hours).
       r \<in> set (metrics_table db)
       \<and> now - 3600000000 * hours < 1000000 * created_at r
       \<and> (\<forall>h. host = Some h \<and> h \<noteq> [] \<longrightarrow> hostname r = h))
   \<and> sorted_wrt (\<lambda>a b. created_at b \<le> created_at a) (get_recent_metrics now fault db host hours)
   \<and> length (get_recent_metrics now fault db host hours) \<le> 1000"
proof -
  let ?c = "sqlite_datetime (now - 3600000000 * hours)"
  consider (none) "get_recent_metrics now fault db host hours = []"
    | (host) h where "host = Some h" "h \<noteq> []"
        "get_recent_metrics now fault db host hours = recent_of_host h ?c (metrics_table db)"
    | (all) "\<not> truthy host"
        "get_recent_metrics now fault db host hours = recent_of_all ?c (metrics_table db)"
    using get_recent_metrics_cases [of now fault db host hours] by blast
  then show ?thesis
  proof cases
    case none
    then show ?thesis by simp
  next
    case host
    then show ?thesis
      by (auto simp add: sorted_recent_of_host length_recent_of_host
          dest!: set_recent_of_host dest: later_than_within)
  next
    case all
    then show ?thesis
      by (auto simp add: sorted_recent_of_all length_recent_of_all truthy_def
          dest!: set_recent_of_all dest: later_than_within split: option.splits)
  qed
qed
text \<open>
  The theorem at a concrete input: the row stored at the start of 2024, queried one second
  later for its host and one hour.
\<close>

theorem get_recent_metrics_sound_witness:
  "example_row 1 63839664000
     \<in> set (get_recent_metrics (new_year_2024 + one_second) None
              (store_example new_year_2024 empty_database) (Some (ascii ''host-a'')) 1)
   \<and> new_year_2024 + one_second - 3600000000 * 1 < 1000000 * created_at (example_row 1 63839664000)
   \<and> hostname (example_row 1 63839664000) = ascii ''host-a''"
proof -
  have m: "example_row 1 63839664000
     \<in> set (get_recent_metrics (new_year_2024 + one_second) None
              (store_example new_year_2024 empty_database) (Some (ascii ''host-a'')) 1)"
    by (simp add: get_recent_metrics_host host_a_text one_row recent_of_host_def later_than_def
        clock_defs)
  from get_recent_metrics_sound [of "new_year_2024 + one_second" None
      "store_example new_year_2024 empty_database" "Some (ascii ''host-a'')" 1]
    m host_a_text show ?thesis by blast
qed
text \<open>
  Claim C2 as stated fails for the empty hostname: \<open>if hostname:\<close> takes it for no filter,
  and a row whose hostname is not the empty string is returned.
\<close>

theorem get_recent_metrics_empty_hostname:
  "map hostname
     (get_recent_metrics (new_year_2024 + one_second) None
        (store_example new_year_2024 empty_database) (Some []) 1) = [ascii ''host-a'']
   \<and> ascii ''host-a'' \<noteq> []"
  by (simp add: get_recent_metrics_all truthy_def one_row recent_of_all_def later_than_def
      clock_defs host_a_text)
text \<open>
  Claim C3, as amended. Whatever \<open>datetime.fromisoformat\<close> accepts: for every body that
  violates a constraint of the data model as read in section ``The constraints of the data
  model, field by field'' (the hostname of the request in characters, no bound on the
  hostname of the snapshot, a timestamp on which \<open>fromisoformat\<close> raises), validation fails
  with a list of errors that names the place of that violation, so every violated field
  is named; the request is answered with the failure and the database is unchanged; and a
  second request with the same body, at any later time and state of the storage, is
  answered with the same failure.
\<close>

theorem invalid_body_is_rejected:
  assumes "violates fromisoformat body l"
  shows "\<exists>errs. validate_MetricsPayload fromisoformat body = Inl errs \<and> l \<in> set errs
     \<and> post_ingest fromisoformat now fault avail db body = (ValidationFailure errs, db)
     \<and> post_ingest fromisoformat now' fault' avail'
          (snd (post_ingest fromisoformat now fault avail db body)) body
         = (ValidationFailure errs, db)"
proof -
  let ?v = "validate_MetricsPayload fromisoformat body"
  from assms have named: "l \<in> set (errors_of ?v)"
    by (rule payload_named)
  then have rej: "?v = Inl (errors_of ?v)"
    by (rule errors_nonempty)
  have "post_ingest fromisoformat t f a d body = (ValidationFailure (errors_of ?v), d)"
    for t f a d
    using rej by (cases ?v) (simp_all add: post_ingest_def)
  with named rej show ?thesis by auto
qed
text \<open>
  The theorem at a concrete input: a body with the empty hostname and a memory percentage
  of 150; both places are named in the failure.
\<close>

theorem invalid_body_is_rejected_witness:
  "violates isoformat_parser invalid_body [Key ''metrics'', Key ''memory'', Key ''percent'']
   \<and> violates isoformat_parser invalid_body [Key ''hostname'']
   \<and> post_ingest isoformat_parser new_year_2024 None True empty_database invalid_body =
       (ValidationFailure [[Key ''hostname''], [Key ''metrics'', Key ''memory'', Key ''percent'']],
        empty_database)"
proof -
  let ?m = "\<lparr>in_Memory_total = Some 1000, in_Memory_available = Some 300,
       in_Memory_percent = Some 150, in_Memory_used = Some 700,
       in_Memory_free = Some 300, in_Memory_buffers = None, in_Memory_cached = None\<rparr>"
  have "\<exists>s. in_Payload_metrics invalid_body = Some s \<and> in_System_memory s = Some ?m"
    by (simp add: invalid_body_def example_body_def)
  then obtain s where s: "in_Payload_metrics invalid_body = Some s"
    and m: "in_System_memory s = Some ?m" by blast
  have "violates_memory ?m [Key ''percent'']"
    by (rule violates_memory.intros(3)) (simp add: missing_or_outside_def)
  with m have "violates_snapshot isoformat_parser s [Key ''memory'', Key ''percent'']"
    by (rule violates_snapshot.intros(6))
  with s have v: "violates isoformat_parser invalid_body
      [Key ''metrics'', Key ''memory'', Key ''percent'']"
    by (rule violates.intros(3))
  have h: "violates isoformat_parser invalid_body [Key ''hostname'']"
    by (rule violates.intros(1))
       (simp add: invalid_body_def example_body_def missing_or_outside_def)
  from invalid_body_is_rejected [OF v, of new_year_2024 None True empty_database] v h
  show ?thesis by (auto simp add: invalid_body_errors)
qed
text \<open>
  Claim C3 as stated fails in each of these runs. A hostname of 200 characters that takes
  400 bytes exceeds the bound of the data model and is accepted and stored. The empty
  string as hostname of the snapshot is accepted, as that field is a plain \<open>str\<close>. A
  timestamp that is a date only, with no time and no zone, is accepted and stored.
\<close>

theorem data_model_constraints_not_enforced:
  "utf8_bytes long_hostname = 400
   \<and> length long_hostname = 200
   \<and> validate_MetricsPayload isoformat_parser (body_with_hostname long_hostname)
       = Inr (payload_with_hostname long_hostname)
   \<and> map hostname (metrics_table (snd (post_ingest isoformat_parser new_year_2024 None True
        empty_database (body_with_hostname long_hostname)))) = [long_hostname]
   \<and> validate_MetricsPayload isoformat_parser (body_with_snapshot_hostname [])
       = Inr (payload_with_snapshot_hostname [])
   \<and> System_hostname (Payload_metrics (payload_with_snapshot_hostname [])) = []
   \<and> validate_MetricsPayload isoformat_parser (body_with_timestamp (ascii ''2024-01-01''))
       = Inr (payload_with_timestamp (ascii ''2024-01-01''))
   \<and> map_option tzinfo (isoformat_parser (ascii ''2024-01-01'')) = Some None
   \<and> map timestamp (metrics_table (snd (post_ingest isoformat_parser new_year_2024 None True
        empty_database (body_with_timestamp (ascii ''2024-01-01''))))) = [ascii ''2024-01-01'']"
proof -
  have b1: "bindable (payload_with_hostname long_hostname)"
    by (simp add: bindable_def payload_with_hostname_def long_hostname_def example_payload_def
        sqlite_text_def sqlite_integer_def ascii_def list_all_iff)
  have b2: "bindable (payload_with_timestamp (ascii ''2024-01-01''))"
    by (simp add: bindable_def payload_with_timestamp_def example_payload_def
        sqlite_text_def sqlite_integer_def ascii_def)
  have u: "utf8_bytes long_hostname = 400 \<and> length long_hostname = 200"
    by (simp add: utf8_bytes_def utf8_len_def long_hostname_def sum_list_replicate)
  have s1: "map hostname (metrics_table (snd (post_ingest isoformat_parser new_year_2024 None True
        empty_database (body_with_hostname long_hostname)))) = [long_hostname]"
    by (simp only: post_ingest_valid [OF long_hostname_valid b1])
       (simp add: insert_metrics_def Let_def empty_database_def payload_with_hostname_def)
  have s2: "map timestamp (metrics_table (snd (post_ingest isoformat_parser new_year_2024 None
        True empty_database (body_with_timestamp (ascii ''2024-01-01''))))) = [ascii ''2024-01-01'']"
    by (simp only: post_ingest_valid [OF date_only_valid b2])
       (simp add: insert_metrics_def Let_def empty_database_def payload_with_timestamp_def)
  from u s1 s2 show ?thesis
    by (simp add: long_hostname_valid empty_snapshot_hostname_valid date_only_valid
        date_only_naive payload_with_snapshot_hostname_def)
qed
text \<open>
  Claim C5, as amended. For every window such that the clock minus the window is a
  datetime, every hostname filter that can be encoded as UTF-8, and with no failure of
  the storage, \<open>get_summary_stats\<close> returns a summary whose count is the number of all rows
  that the filter and the window select, and \<open>get_recent_metrics\<close> with the same arguments
  returns the smaller of 1000 and that count.
\<close>

theorem summary_count_is_uncapped:
  assumes range: "representable (now - 3600000000 * hours)"
    and enc: "\<forall>h. host = Some h \<longrightarrow> sqlite_text h"
  shows "\<exists>s. get_summary_stats now None db host hours = Some s
     \<and> total_records s =
         length (filter (\<lambda>r. later_than (sqlite_datetime (now - 3600000000 * hours)) r
                          \<and> (\<forall>h. host = Some h \<and> h \<noteq> [] \<longrightarrow> hostname r = h))
                   (metrics_table db))
     \<and> length (get_recent_metrics now None db host hours) = min 1000 (total_records s)"
proof (cases "truthy host")
  case True
  then obtain h where h: "host = Some h" "h \<noteq> []"
    by (auto simp add: truthy_def split: option.splits)
  with enc have t: "sqlite_text h" by simp
  have "filter (\<lambda>r. later_than c r \<and> hostname r = h) rs
      = filter (\<lambda>r. hostname r = h \<and> later_than c r) rs" for c rs
    by (rule filter_cong) auto
  with range h t show ?thesis
    by (simp add: get_summary_stats_host get_recent_metrics_host length_recent_of_host
        aggregate_def matching_host)
next
  case False
  with range show ?thesis
    by (simp add: get_summary_stats_all get_recent_metrics_all length_recent_of_all
        aggregate_def matching_all)
qed
text \<open>
  The theorem at a concrete input: 1001 rows of one host stored within one second, of
  which the summary counts 1001 and the query returns 1000.
\<close>

theorem summary_count_is_uncapped_witness:
  "representable (new_year_2024 - 3600000000 * 1)
   \<and> sqlite_text (ascii ''host-a'')
   \<and> length (metrics_table ((store_example new_year_2024 ^^ 1001) empty_database)) = 1001
   \<and> map_option total_records
       (get_summary_stats new_year_2024 None
          ((store_example new_year_2024 ^^ 1001) empty_database)
          (Some (ascii ''host-a'')) 1) = Some 1001
   \<and> length (get_recent_metrics new_year_2024 None
          ((store_example new_year_2024 ^^ 1001) empty_database)
          (Some (ascii ''host-a'')) 1) = 1000"
proof -
  let ?db = "(store_example new_year_2024 ^^ 1001) empty_database"
  have r: "representable (new_year_2024 - 3600000000 * 1)"
    by (simp add: clock_defs)
  have t: "\<forall>h. Some (ascii ''host-a'') = Some h \<longrightarrow> sqlite_text h"
    by (simp add: host_a_text)
  have c: "sqlite_datetime (new_year_2024 - 3600000000 * 1) = Some 63839660400"
    by (simp add: clock_defs)
  have s: "(63839660400::int) < new_year_2024 div 1000000" by (simp add: clock_defs)
  have n: "length (metrics_table ?db) = 1001"
    by (simp only: ex_1001_rows database.simps) simp
  have "filter (\<lambda>r. later_than (sqlite_datetime (new_year_2024 - 3600000000 * 1)) r
              \<and> (\<forall>h. Some (ascii ''host-a'') = Some h \<and> h \<noteq> [] \<longrightarrow> hostname r = h))
          (metrics_table ?db) = metrics_table ?db"
    using s by (simp only: ex_1001_rows database.simps c) (simp add: filter_id_conv later_than_def)
  with n have k: "length (filter (\<lambda>r. later_than (sqlite_datetime
                (new_year_2024 - 3600000000 * 1)) r
              \<and> (\<forall>h. Some (ascii ''host-a'') = Some h \<and> h \<noteq> [] \<longrightarrow> hostname r = h))
          (metrics_table ?db)) = 1001"
    by (simp only:)
  from summary_count_is_uncapped [OF r t, of ?db] k r n host_a_text
  show ?thesis by auto
qed
text \<open>
  Claim C5 as stated fails in each of these runs, where one row is stored and the summary
  holds no count at all: with a window of \<open>10^9\<close> hours (\<open>OverflowError\<close>), with a hostname
  filter that is a lone surrogate (\<open>UnicodeEncodeError\<close>), and with a failure of the
  storage.
\<close>

theorem summary_without_count:
  "length (metrics_table (store_example new_year_2024 empty_database)) = 1
   \<and> get_summary_stats (new_year_2024 + one_second) None
        (store_example new_year_2024 empty_database) None 1000000000 = None
   \<and> get_recent_metrics (new_year_2024 + one_second) None
        (store_example new_year_2024 empty_database) None 1000000000 = []
   \<and> get_summary_stats (new_year_2024 + one_second) None
        (store_example new_year_2024 empty_database) (Some [55296]) 1 = None
   \<and> get_summary_stats (new_year_2024 + one_second) (Some OnConnect)
        (store_example new_year_2024 empty_database) None 1 = None"
  by (simp add: one_row get_summary_stats_overflow get_recent_metrics_overflow clock_defs)
     (simp add: get_summary_stats_def minus_timedelta_def truthy_def sqlite_text_def clock_defs)
text \<open>
  Claim C6, as amended. If validation accepts a body and \<open>store_metrics\<close> stores the
  payload, then \<open>datetime.fromisoformat\<close> has parsed the timestamp of the body, with every
  \<open>Z\<close> replaced by \<open>+00:00\<close>; the timestamp of the payload and of the stored row is the
  string of the body, unchanged; and \<open>created_at\<close> of the stored row is the second of the
  server's clock. Neither a zone nor the separator \<open>T\<close> of ISO 8601 is required.
\<close>

theorem timestamp_validated_and_stored:
  assumes valid: "validate_MetricsPayload fromisoformat body = Inr p"
    and stored: "store_metrics now fault db p = (True, db')"
  shows "\<exists>m v. in_Payload_metrics body = Some m \<and> in_System_timestamp m = Some v
     \<and> fromisoformat (replace_Z v) \<noteq> None
     \<and> System_timestamp (Payload_metrics p) = v
     \<and> timestamp (last (metrics_table db')) = v
     \<and> created_at (last (metrics_table db')) = current_timestamp now"
proof -
  from valid obtain m s where m: "in_Payload_metrics body = Some m"
    and s: "validate_SystemMetrics fromisoformat [Key ''metrics''] m = Inr s"
    and p: "Payload_metrics p = s"
    by (auto simp add: validate_MetricsPayload_def ap_Inr_iff required_model_Inr)
  from stored have "db' = insert_metrics now p db" by (simp add: store_metrics_True)
  with system_timestamp_valid [OF s] m p show ?thesis
    by (simp add: insert_metrics_def Let_def)
qed
text \<open>
  The theorem at a concrete input: the example body, stored a quarter of a second after
  the start of 2024.
\<close>

theorem timestamp_validated_and_stored_witness:
  "validate_MetricsPayload isoformat_parser example_body = Inr example_payload
   \<and> store_metrics (new_year_2024 + 250000) None empty_database example_payload
       = (True, store_example (new_year_2024 + 250000) empty_database)
   \<and> timestamp (last (metrics_table (store_example (new_year_2024 + 250000) empty_database)))
       = ascii ''2024-01-01T12:00:00+00:00''
   \<and> created_at (last (metrics_table (store_example (new_year_2024 + 250000) empty_database)))
       = 63839664000"
proof -
  have st: "store_metrics (new_year_2024 + 250000) None empty_database example_payload
       = (True, store_example (new_year_2024 + 250000) empty_database)"
    by (rule store_example_True) (simp add: next_rowid_def empty_database_def sqlite_integer_def)
  from timestamp_validated_and_stored [OF example_body_valid st]
  obtain m v where m: "in_Payload_metrics example_body = Some m"
    and v: "in_System_timestamp m = Some v"
    and t: "timestamp (last (metrics_table
              (store_example (new_year_2024 + 250000) empty_database))) = v"
    and c: "created_at (last (metrics_table
              (store_example (new_year_2024 + 250000) empty_database)))
            = current_timestamp (new_year_2024 + 250000)"
    by blast
  from m v have "v = ascii ''2024-01-01T12:00:00+00:00''"
    by (auto simp add: example_body_def)
  with t c example_body_valid st show ?thesis
    by (simp add: current_timestamp_def clock_defs)
qed
text \<open>
  Claim C6 as stated fails for these two timestamps, both accepted: one with no zone,
  which is parsed as a naive datetime, and one with an underscore between date and time,
  which is no ISO 8601 string.
\<close>

theorem timestamp_without_zone_is_accepted:
  "validate_timestamp isoformat_parser (ascii ''2024-01-01T12:00:00'')
     = Some (ascii ''2024-01-01T12:00:00'')
   \<and> map_option tzinfo (isoformat_parser (ascii ''2024-01-01T12:00:00'')) = Some None
   \<and> validate_timestamp isoformat_parser (ascii ''2024-01-01_12:00:00+00:00'')
     = Some (ascii ''2024-01-01_12:00:00+00:00'')"
  by (simp add: naive_ok underscore_ok)
text \<open>
  Claim C8. A failure of the storage, at whatever point of a method, does not leave the
  method as an exception: \<open>store_metrics\<close> returns \<open>False\<close> and \<open>cleanup_old_data\<close> returns
  0, both with the database as it was; \<open>get_recent_metrics\<close> returns the empty list and
  \<open>get_summary_stats\<close> the empty dictionary.
\<close>

theorem failures_are_caught:
  "store_metrics now (Some f) db p = (False, db)
   \<and> cleanup_old_data now (Some f) db d = (0, db)
   \<and> get_recent_metrics now (Some OnConnect) db host hours = []
   \<and> get_recent_metrics now (Some InBody) db host hours = []
   \<and> get_summary_stats now (Some OnConnect) db host hours = None
   \<and> get_summary_stats now (Some InBody) db host hours = None"
  by (simp add: store_metrics_fails cleanup_old_data_fails get_recent_metrics_def
      get_summary_stats_def)
text \<open>
  The theorem at a concrete input: on the database that holds the row stored at the start
  of 2024, a store and a cleanup that fail at the commit, and two reads that fail inside the
  method.
\<close>

theorem failures_are_caught_witness:
  "store_metrics (new_year_2024 + one_second) (Some OnCommit)
      (store_example new_year_2024 empty_database) example_payload
     = (False, store_example new_year_2024 empty_database)
   \<and> cleanup_old_data (new_year_2024 + 40 * one_day) (Some OnCommit)
      (store_example new_year_2024 empty_database) 30
     = (0, store_example new_year_2024 empty_database)
   \<and> get_recent_metrics (new_year_2024 + one_second) (Some InBody)
      (store_example new_year_2024 empty_database) (Some (ascii ''host-a'')) 1 = []
   \<and> get_summary_stats (new_year_2024 + one_second) (Some InBody)
      (store_example new_year_2024 empty_database) (Some (ascii ''host-a'')) 1 = None
   \<and> map row_id (metrics_table (store_example new_year_2024 empty_database)) = [1]"
  using failures_are_caught [where now = "new_year_2024 + one_second" and f = OnCommit
      and db = "store_example new_year_2024 empty_database" and p = example_payload
      and d = 30 and host = "Some (ascii ''host-a'')" and hours = 1]
    failures_are_caught [where now = "new_year_2024 + 40 * one_day" and f = OnCommit
      and db = "store_example new_year_2024 empty_database" and p = example_payload
      and d = 30 and host = "Some (ascii ''host-a'')" and hours = 1]
  by (simp add: one_row)

text \<open>
  Claim C9, as amended. In every state reached from the empty database by calls of
  \<open>store_metrics\<close> and \<open>cleanup_old_data\<close>, with or without failures of the storage, the
  ids are strictly increasing in the order of insertion, so unique, and none exceeds the
  counter of the table; \<open>created_at\<close> is non-decreasing with the id provided that the clock
  readings of the successive calls of \<open>store_metrics\<close>, in whole seconds, never went back;
  and every further call of \<open>store_metrics\<close> or \<open>cleanup_old_data\<close> preserves the invariant
  of the ids (the two read methods return no database).
\<close>

theorem ids_and_created_at_invariant:
  assumes "reachable ts db"
  shows "sorted_wrt (<) (map row_id (metrics_table db))
    \<and> distinct (map row_id (metrics_table db))
    \<and> (\<forall>r \<in> set (metrics_table db). row_id r \<le> metrics_seq db)
    \<and> (sorted (map current_timestamp ts) \<longrightarrow> sorted (map created_at (metrics_table db)))
    \<and> (\<forall>now fault p. ids_inv (snd (store_metrics now fault db p)))
    \<and> (\<forall>now fault d. ids_inv (snd (cleanup_old_data now fault db d)))"
proof -
  from assms have inv: "ids_inv db" by (rule reachable_ids)
  then have s: "sorted_wrt (<) (map row_id (metrics_table db))"
    and b: "\<forall>r \<in> set (metrics_table db). row_id r \<le> metrics_seq db"
    by (simp_all add: ids_inv_def list_all_iff)
  from s have "distinct (map row_id (metrics_table db))" by (simp add: strict_sorted_iff)
  with s b inv reachable_sorted [OF assms] show ?thesis
    by (simp add: ids_inv_store ids_inv_cleanup)
qed
text \<open>
  The theorem at a concrete input: two rows stored one second apart.
\<close>

theorem ids_and_created_at_invariant_witness:
  "reachable [new_year_2024, new_year_2024 + one_second]
     (store_example (new_year_2024 + one_second) (store_example new_year_2024 empty_database))
   \<and> sorted (map current_timestamp [new_year_2024, new_year_2024 + one_second])
   \<and> map row_id (metrics_table
       (store_example (new_year_2024 + one_second) (store_example new_year_2024 empty_database)))
       = [1, 2]
   \<and> map created_at (metrics_table
       (store_example (new_year_2024 + one_second) (store_example new_year_2024 empty_database)))
       = [63839664000, 63839664001]
   \<and> sorted (map created_at (metrics_table
       (store_example (new_year_2024 + one_second) (store_example new_year_2024 empty_database))))"
proof -
  have "reachable ([] @ [new_year_2024]) (store_example new_year_2024 empty_database)"
    unfolding store_example_def by (rule reachable.store [OF reachable.init])
  then have "reachable (([] @ [new_year_2024]) @ [new_year_2024 + one_second])
     (store_example (new_year_2024 + one_second) (store_example new_year_2024 empty_database))"
    unfolding store_example_def by (rule reachable.store)
  then have r: "reachable [new_year_2024, new_year_2024 + one_second]
     (store_example (new_year_2024 + one_second) (store_example new_year_2024 empty_database))"
    by simp
  have s: "sorted (map current_timestamp [new_year_2024, new_year_2024 + one_second])"
    by (simp add: current_timestamp_def clock_defs)
  from ids_and_created_at_invariant [OF r] r s show ?thesis
    by (simp add: two_rows clock_defs)
qed
text \<open>
  Claim C9 as stated fails when the clock of the server is set back between two calls of
  \<open>store_metrics\<close> by the single writer: the row with the id 2 carries the earlier
  \<open>created_at\<close>.
\<close>

theorem created_at_follows_the_clock:
  "map row_id (metrics_table
     (store_example (new_year_2024 - one_second) (store_example new_year_2024 empty_database)))
     = [1, 2]
   \<and> map created_at (metrics_table
     (store_example (new_year_2024 - one_second) (store_example new_year_2024 empty_database)))
     = [63839664000, 63839663999]"
  by (simp add: two_rows clock_defs)
text \<open>
  Claim C10, as amended. For every window such that the clock minus the window is a
  datetime, every hostname filter that can be encoded as UTF-8, and with no failure of
  the storage: if no row matches, \<open>get_summary_stats\<close> returns a summary with the count 0
  and every average and maximum null, which differs from the empty dictionary returned
  on a failure of the storage.
\<close>

theorem empty_summary_is_not_a_failure:
  assumes range: "representable (now - 3600000000 * hours)"
    and enc: "\<forall>h. host = Some h \<longrightarrow> sqlite_text h"
    and none: "\<forall>r \<in> set (metrics_table db).
       \<not> (later_than (sqlite_datetime (now - 3600000000 * hours)) r
          \<and> (\<forall>h. host = Some h \<and> h \<noteq> [] \<longrightarrow> hostname r = h))"
  shows "get_summary_stats now None db host hours =
           Some \<lparr>total_records = 0, avg_cpu = None, max_cpu = None, avg_memory = None,
                 max_memory = None, avg_swap = None, max_swap = None\<rparr>
         \<and> get_summary_stats now None db host hours
             \<noteq> get_summary_stats now (Some OnConnect) db host hours
         \<and> get_summary_stats now None db host hours
             \<noteq> get_summary_stats now (Some InBody) db host hours"
proof -
  let ?c = "sqlite_datetime (now - 3600000000 * hours)"
  from none have e: "filter (\<lambda>r. later_than ?c r
        \<and> (\<forall>h. host = Some h \<and> h \<noteq> [] \<longrightarrow> hostname r = h)) (metrics_table db) = []"
    by (simp add: filter_empty_conv)
  have "get_summary_stats now None db host hours = Some (aggregate [])"
  proof (cases "truthy host")
    case True
    then obtain h where h: "host = Some h" "h \<noteq> []"
      by (auto simp add: truthy_def split: option.splits)
    with enc have t: "sqlite_text h" by simp
    have "filter (\<lambda>r. later_than c r \<and> hostname r = h) rs
        = filter (\<lambda>r. hostname r = h \<and> later_than c r) rs" for c rs
      by (rule filter_cong) auto
    with range h t e show ?thesis
      by (simp add: get_summary_stats_host matching_host)
  next
    case False
    with range e show ?thesis
      by (simp add: get_summary_stats_all matching_all)
  qed
  then show ?thesis
    by (simp add: aggregate_def) (simp add: get_summary_stats_def)
qed
text \<open>
  The theorem at a concrete input: a database that holds a row of host-a, summarised for
  host-b.
\<close>

theorem empty_summary_is_not_a_failure_witness:
  "representable (new_year_2024 + one_second - 3600000000 * 24)
   \<and> sqlite_text (ascii ''host-b'')
   \<and> map hostname (metrics_table (store_example new_year_2024 empty_database))
       = [ascii ''host-a'']
   \<and> get_summary_stats (new_year_2024 + one_second) None
        (store_example new_year_2024 empty_database) (Some (ascii ''host-b'')) 24 =
           Some \<lparr>total_records = 0, avg_cpu = None, max_cpu = None, avg_memory = None,
                 max_memory = None, avg_swap = None, max_swap = None\<rparr>"
proof -
  have r: "representable (new_year_2024 + one_second - 3600000000 * 24)"
    by (simp add: clock_defs)
  have t: "\<forall>h. Some (ascii ''host-b'') = Some h \<longrightarrow> sqlite_text h"
    by (simp add: host_b_text)
  have n: "\<forall>r \<in> set (metrics_table (store_example new_year_2024 empty_database)).
       \<not> (later_than (sqlite_datetime (new_year_2024 + one_second - 3600000000 * 24)) r
          \<and> (\<forall>h. Some (ascii ''host-b'') = Some h \<and> h \<noteq> [] \<longrightarrow> hostname r = h))"
    by (simp add: one_row host_b_text)
  have m: "map hostname (metrics_table (store_example new_year_2024 empty_database))
       = [ascii ''host-a'']"
    by (simp add: one_row)
  from empty_summary_is_not_a_failure [OF r t n] r m host_b_text show ?thesis by simp
qed
text \<open>
  Claim C10 as stated fails in each of these runs on the empty database, where no row
  matches and the result is the empty dictionary, the same as on a failure of the
  storage: with a window of \<open>10^9\<close> hours (\<open>OverflowError\<close>) and with a hostname filter
  that is a lone surrogate (\<open>UnicodeEncodeError\<close>).
\<close>

theorem empty_summary_fails_on_overflow:
  "get_summary_stats new_year_2024 None empty_database None 1000000000 = None
   \<and> get_summary_stats new_year_2024 (Some OnConnect) empty_database None 1000000000 = None
   \<and> get_summary_stats new_year_2024 None empty_database (Some [55296]) 24 = None"
  by (simp add: get_summary_stats_overflow clock_defs)
     (simp add: get_summary_stats_def minus_timedelta_def truthy_def sqlite_text_def clock_defs)

end
